theory Spec2Isabelle
  imports Complex_Main
begin

section \<open>Smart Self-Checkout backend: a shallow embedding of main.py and schemas.py\<close>

text \<open>
  The handlers of \<^verbatim>\<open>main.py\<close> are modelled as functions on an explicit store.
  A handler that writes returns the store it leaves behind together with its
  outcome; a Python exception is the \<open>Inl\<close> branch of the outcome, and the store
  returned with it holds every write made before the exception was raised.
  Handlers that only read return the outcome alone.

  Conventions of the model:
  \<^item> Python's \<^verbatim>\<open>float\<close> (prices, subtotals, totals) is modelled by \<open>real\<close>, so
    sums and products are exact; \<^verbatim>\<open>int\<close> (quantities, stock) is \<open>int\<close>.
  \<^item> A collection is the list of its documents in storage order, each paired
    with its \<^verbatim>\<open>_id\<close>. Documents have the fields of the schema classes.
  \<^item> A bson \<^verbatim>\<open>ObjectId\<close> is represented by its textual form, the lower-case
    hexadecimal digits of its bytes (24 of them for an identifier the store
    assigned), so \<^verbatim>\<open>str(_id)\<close> is the identity.
  \<^item> An integer the store holds is a BSON integer of at most 64 bits; an
    integer of a request body is unbounded, as Python's is.
\<close>

subsection \<open>Object identifiers\<close>

type_synonym objectid = string

definition is_hex :: "char \<Rightarrow> bool" where
  "is_hex c = (c \<in> set ''0123456789abcdefABCDEF'')"

definition lower_hex :: "char \<Rightarrow> char" where
  "lower_hex c =
     (if c = CHR ''A'' then CHR ''a'' else if c = CHR ''B'' then CHR ''b''
      else if c = CHR ''C'' then CHR ''c'' else if c = CHR ''D'' then CHR ''d''
      else if c = CHR ''E'' then CHR ''e'' else if c = CHR ''F'' then CHR ''f''
      else c)"

text \<open>
  Python's \<^verbatim>\<open>bytes.fromhex\<close>, with the bytes it returns written as lower-case
  hexadecimal digits: ASCII white space before a byte is skipped, a byte is
  two hexadecimal digits (upper or lower case) with nothing between them, and
  anything else raises \<^verbatim>\<open>ValueError\<close>, which is \<open>None\<close> here.
\<close>

definition is_space :: "char \<Rightarrow> bool" where
  "is_space c = (c \<in> set [CHR 0x20, CHR 0x09, CHR 0x0A, CHR 0x0B, CHR 0x0C, CHR 0x0D])"

fun fromhex :: "string \<Rightarrow> string option" where
  "fromhex [] = Some []"
| "fromhex [c] = (if is_space c then Some [] else None)"
| "fromhex (c # d # rest) =
     (if is_space c then fromhex (d # rest)
      else if is_hex c \<and> is_hex d
           then map_option (\<lambda>r. lower_hex c # lower_hex d # r) (fromhex rest)
           else None)"

text \<open>
  \<^verbatim>\<open>ObjectId(id_str)\<close> of the bson library: a string is accepted when it has 24
  characters and \<^verbatim>\<open>bytes.fromhex\<close> accepts it, and the identifier is the bytes
  that returns (twelve for 24 hexadecimal digits, fewer when the string holds
  white space); anything else raises, which is \<open>None\<close> here.
\<close>

definition ObjectId :: "string \<Rightarrow> objectid option" where
  "ObjectId id_str = (if length id_str = 24 then fromhex id_str else None)"

definition str_oid :: "objectid \<Rightarrow> string" where
  "str_oid i = i"

definition hexdigit :: "nat \<Rightarrow> char" where
  "hexdigit d = ''0123456789abcdef'' ! (d mod 16)"

text \<open>
  Modelled from the spec: the identifier the store assigns on insertion, a
  24-character hexadecimal object identifier (the generator itself belongs to
  the document store, not to the sources). The store numbers its insertions;
  the n-th identifier is the 24-digit hexadecimal numeral of n.
\<close>

definition hex24 :: "nat \<Rightarrow> objectid" where
  "hex24 n = map (\<lambda>i. hexdigit (n div 16 ^ i)) (rev [0..<24])"

subsection \<open>Errors\<close>

text \<open>
  \<open>HTTPException\<close> carries the status code and the detail string.
  \<open>ValidationError\<close> is pydantic's, raised by a schema constructor;
  \<open>InvalidId\<close> is bson's, raised by \<^verbatim>\<open>ObjectId\<close> outside \<^verbatim>\<open>oid\<close>;
  \<open>OverflowError\<close> is Python's, raised when an integer is too large to become a
  \<^verbatim>\<open>float\<close> and by the BSON encoder for an integer beyond 64 bits.
\<close>

datatype error = HTTPException int string | ValidationError | InvalidId | OverflowError

definition oid :: "string \<Rightarrow> error + objectid" where
  "oid id_str =
     (case ObjectId id_str of
        Some i \<Rightarrow> Inr i
      | None \<Rightarrow> Inl (HTTPException 400 ''Invalid id''))"

subsection \<open>schemas.py\<close>

record User =
  name :: string
  email :: string
  phone :: "string option"
  password :: string
  role :: string
  is_active :: bool

record Product =
  title :: string
  description :: "string option"
  price :: real
  barcode :: "string option"
  stock :: int
  category :: "string option"
  in_stock :: bool

record CartItem =
  product_id :: string
  title :: string
  price :: real
  quantity :: int
  barcode :: "string option"

record Cart =
  user_id :: string
  items :: "CartItem list"
  status :: string
  subtotal :: real

record Order =
  user_id :: string
  cart_id :: string
  items :: "CartItem list"
  total :: real
  status :: string
  payment_method :: "string option"
  created_at :: "nat option"

text \<open>
  The constructors of the schema classes. The argument holds the fields as
  given, \<open>None\<close> for a field left out that has a default; the result is the
  validated instance or pydantic's \<open>ValidationError\<close>. Only the \<^verbatim>\<open>Field\<close>
  constraints of the source are checked: \<^verbatim>\<open>ge=0\<close> on \<^verbatim>\<open>Product.price\<close> and
  \<^verbatim>\<open>Product.stock\<close>, \<^verbatim>\<open>ge=1\<close> on \<^verbatim>\<open>CartItem.quantity\<close>.
\<close>

record Product_fields =
  title :: string
  description :: "string option"
  price :: real
  barcode :: "string option"
  stock :: "int option"
  category :: "string option"
  in_stock :: "bool option"

definition Product_init :: "Product_fields \<Rightarrow> error + Product" where
  "Product_init f =
     (let st = (case Product_fields.stock f of None \<Rightarrow> 0 | Some n \<Rightarrow> n);
          ins = (case Product_fields.in_stock f of None \<Rightarrow> True | Some b \<Rightarrow> b)
      in if \<not> (Product_fields.price f \<ge> 0) then Inl ValidationError
         else if \<not> (st \<ge> 0) then Inl ValidationError
         else Inr \<lparr>Product.title = Product_fields.title f,
                   Product.description = Product_fields.description f,
                   Product.price = Product_fields.price f,
                   Product.barcode = Product_fields.barcode f,
                   Product.stock = st,
                   Product.category = Product_fields.category f,
                   Product.in_stock = ins\<rparr>)"

record CartItem_fields =
  product_id :: string
  title :: string
  price :: real
  quantity :: "int option"
  barcode :: "string option"

definition CartItem_init :: "CartItem_fields \<Rightarrow> error + CartItem" where
  "CartItem_init f =
     (let q = (case CartItem_fields.quantity f of None \<Rightarrow> 1 | Some n \<Rightarrow> n)
      in if \<not> (q \<ge> 1) then Inl ValidationError
         else Inr \<lparr>CartItem.product_id = CartItem_fields.product_id f,
                   CartItem.title = CartItem_fields.title f,
                   CartItem.price = CartItem_fields.price f,
                   CartItem.quantity = q,
                   CartItem.barcode = CartItem_fields.barcode f\<rparr>)"

text \<open>
  \<^verbatim>\<open>Order(...)\<close> as \<^verbatim>\<open>checkout\<close> calls it: the items come from a stored cart
  and are validated again as \<^verbatim>\<open>CartItem\<close>s.
\<close>

definition Order_init ::
  "string \<Rightarrow> string \<Rightarrow> CartItem list \<Rightarrow> real \<Rightarrow> string \<Rightarrow> string \<Rightarrow> error + Order" where
  "Order_init uid cid its tot st pm =
     (if list_all (\<lambda>i. CartItem.quantity i \<ge> 1) its
      then Inr \<lparr>Order.user_id = uid, Order.cart_id = cid, Order.items = its,
                Order.total = tot, Order.status = st,
                Order.payment_method = Some pm, Order.created_at = None\<rparr>
      else Inl ValidationError)"

subsection \<open>The document store\<close>

record db =
  coll_user :: "(objectid \<times> User) list"
  coll_product :: "(objectid \<times> Product) list"
  coll_cart :: "(objectid \<times> Cart) list"
  coll_order :: "(objectid \<times> Order) list"
  next_id :: nat

text \<open>
  \<^verbatim>\<open>find_one(query)\<close> returns the first document in storage order that
  matches, \<^verbatim>\<open>update_one(query, update)\<close> changes the first document that
  matches and nothing when none does.
\<close>

definition find_one ::
  "(objectid \<Rightarrow> 'd \<Rightarrow> bool) \<Rightarrow> (objectid \<times> 'd) list \<Rightarrow> (objectid \<times> 'd) option" where
  "find_one q docs = List.find (\<lambda>d. q (fst d) (snd d)) docs"

fun update_one ::
  "(objectid \<Rightarrow> 'd \<Rightarrow> bool) \<Rightarrow> ('d \<Rightarrow> 'd) \<Rightarrow> (objectid \<times> 'd) list \<Rightarrow> (objectid \<times> 'd) list" where
  "update_one q f [] = []"
| "update_one q f (d # docs) =
     (if q (fst d) (snd d) then (fst d, f (snd d)) # docs
      else d # update_one q f docs)"

text \<open>
  Modelled from the spec: \<^verbatim>\<open>create_document(collection_name, record)\<close> of the
  database access layer (\<^verbatim>\<open>database.py\<close>, not among the sources): it stores
  the record's fields as a document of the named collection under a new
  identifier and returns the textual form of that identifier. One function
  per collection, since the collections have different document types.
\<close>

definition create_document_cart :: "db \<Rightarrow> Cart \<Rightarrow> db \<times> string" where
  "create_document_cart s c =
     (let i = hex24 (next_id s)
      in (s\<lparr>coll_cart := coll_cart s @ [(i, c)], next_id := Suc (next_id s)\<rparr>, str_oid i))"

definition create_document_order :: "db \<Rightarrow> Order \<Rightarrow> db \<times> string" where
  "create_document_order s r =
     (let i = hex24 (next_id s)
      in (s\<lparr>coll_order := coll_order s @ [(i, r)], next_id := Suc (next_id s)\<rparr>, str_oid i))"

text \<open>Python's \<^verbatim>\<open>sum\<close> over a generator: left to right, starting from 0.\<close>

definition py_sum :: "real list \<Rightarrow> real" where
  "py_sum xs = foldl (+) 0 xs"

definition line_total :: "CartItem \<Rightarrow> real" where
  "line_total i = CartItem.price i * real_of_int (CartItem.quantity i)"

text \<open>
  \<^verbatim>\<open>price * quantity\<close> turns the integer into a \<^verbatim>\<open>float\<close> first, and Python
  raises \<^verbatim>\<open>OverflowError\<close> when the nearest \<^verbatim>\<open>float\<close> is not finite, that is
  from \<open>2 ^ 1024 - 2 ^ 970\<close> on in absolute value.
\<close>

definition float_too_large :: "int \<Rightarrow> bool" where
  "float_too_large n = (\<bar>n\<bar> \<ge> 2 ^ 1024 - 2 ^ 970)"

text \<open>
  \<^verbatim>\<open>sum(i["price"] * i["quantity"] for i in items)\<close> where the quantities
  are not known to be 64-bit integers: the first line whose quantity cannot
  become a \<^verbatim>\<open>float\<close> raises.
\<close>

fun sum_lines :: "real \<Rightarrow> CartItem list \<Rightarrow> error + real" where
  "sum_lines acc [] = Inr acc"
| "sum_lines acc (i # rest) =
     (if float_too_large (CartItem.quantity i) then Inl OverflowError
      else sum_lines (acc + line_total i) rest)"

text \<open>
  The BSON encoder of the driver writes an integer in 32 or 64 bits and
  raises \<^verbatim>\<open>OverflowError\<close> for one outside the signed 64-bit range. It runs when
  \<^verbatim>\<open>update_one\<close> is called, before anything reaches the store.
\<close>

definition int64 :: "int \<Rightarrow> bool" where
  "int64 n = (- (2 ^ 63) \<le> n \<and> n < 2 ^ 63)"

definition bson_encodable :: "CartItem list \<Rightarrow> bool" where
  "bson_encodable its = list_all (\<lambda>i. int64 (CartItem.quantity i)) its"

subsection \<open>Auth\<close>

record LoginRequest =
  email :: string
  password :: string

record LoginResponse =
  user_id :: string
  role :: string
  name :: string

definition login :: "db \<Rightarrow> LoginRequest \<Rightarrow> error + LoginResponse" where
  "login s payload =
     (case find_one (\<lambda>_ u. User.email u = LoginRequest.email payload
                          \<and> User.password u = LoginRequest.password payload) (coll_user s) of
        None \<Rightarrow> Inl (HTTPException 401 ''Invalid credentials'')
      | Some (i, u) \<Rightarrow>
          Inr \<lparr>LoginResponse.user_id = str_oid i, LoginResponse.role = User.role u,
               LoginResponse.name = User.name u\<rparr>)"

subsection \<open>Cart\<close>

definition active_cart :: "db \<Rightarrow> string \<Rightarrow> (objectid \<times> Cart) option" where
  "active_cart s uid =
     find_one (\<lambda>_ c. Cart.user_id c = uid \<and> Cart.status c = ''active'') (coll_cart s)"

text \<open>
  The merge loop of \<^verbatim>\<open>cart_add\<close>: the first line item with the payload's
  \<^verbatim>\<open>product_id\<close> gets the payload's quantity added and the loop stops; the
  flag says whether that happened.
\<close>

fun merge_loop :: "CartItem \<Rightarrow> CartItem list \<Rightarrow> CartItem list \<times> bool" where
  "merge_loop item [] = ([], False)"
| "merge_loop item (ci # rest) =
     (if CartItem.product_id ci = CartItem.product_id item
      then (ci\<lparr>CartItem.quantity := CartItem.quantity ci + CartItem.quantity item\<rparr> # rest, True)
      else (ci # fst (merge_loop item rest), snd (merge_loop item rest)))"

record CartAddResponse =
  cart_id :: string
  subtotal :: real
  items :: "CartItem list"

definition cart_add_items :: "CartItem \<Rightarrow> CartItem list \<Rightarrow> CartItem list" where
  "cart_add_items item its =
     (let (its', merged) = merge_loop item its
      in if \<not> merged then its' @ [item] else its')"

text \<open>
  \<^verbatim>\<open>cart_add\<close> from the merge loop on, for the cart \<open>c\<close> with identifier
  \<open>cid\<close>. The sum and the encoding of the update can raise; the store is then
  as it was, since the merge changed the handler's copy of the cart only.
\<close>

definition cart_add_found :: "db \<Rightarrow> objectid \<Rightarrow> Cart \<Rightarrow> CartItem \<Rightarrow> db \<times> (error + CartAddResponse)" where
  "cart_add_found s cid c item =
     (let its = cart_add_items item (Cart.items c)
      in case sum_lines 0 its of
           Inl e \<Rightarrow> (s, Inl e)
         | Inr sub \<Rightarrow>
             if \<not> bson_encodable its then (s, Inl OverflowError)
             else
               (s\<lparr>coll_cart :=
                    update_one (\<lambda>i _. i = cid)
                      (\<lambda>d. d\<lparr>Cart.items := its, Cart.subtotal := sub\<rparr>) (coll_cart s)\<rparr>,
                Inr \<lparr>CartAddResponse.cart_id = str_oid cid, CartAddResponse.subtotal = sub,
                     CartAddResponse.items = its\<rparr>))"

definition cart_add :: "db \<Rightarrow> string \<Rightarrow> CartItem \<Rightarrow> db \<times> (error + CartAddResponse)" where
  "cart_add s uid item =
     (case active_cart s uid of
        Some (cid, c) \<Rightarrow> cart_add_found s cid c item
      | None \<Rightarrow>
          (let c = \<lparr>Cart.user_id = uid, Cart.items = [], Cart.status = ''active'',
                    Cart.subtotal = 0\<rparr>;
               (s1, new_id) = create_document_cart s c
           in case ObjectId new_id of
                None \<Rightarrow> (s1, Inl InvalidId)
              | Some cid \<Rightarrow> cart_add_found s1 cid c item))"

text \<open>
  The route \<^verbatim>\<open>POST /cart/{user_id}/add\<close>: the body is turned into a
  \<^verbatim>\<open>CartItem\<close> before the handler runs, and a body the constructor rejects is
  answered with status 422 without the handler being called.
\<close>

definition post_cart_add :: "db \<Rightarrow> string \<Rightarrow> CartItem_fields \<Rightarrow> db \<times> (error + CartAddResponse)" where
  "post_cart_add s uid body =
     (case CartItem_init body of
        Inl e \<Rightarrow> (s, Inl (HTTPException 422 ''Unprocessable Entity''))
      | Inr item \<Rightarrow> cart_add s uid item)"

text \<open>
  The line items of the user's active cart as \<^verbatim>\<open>cart_add\<close> sees them before
  it merges: those of the cart found, none when it has to create the cart.
\<close>

definition active_items :: "db \<Rightarrow> string \<Rightarrow> CartItem list" where
  "active_items s uid = (case active_cart s uid of None \<Rightarrow> [] | Some d \<Rightarrow> Cart.items (snd d))"

record GetCartResponse =
  items :: "CartItem list"
  subtotal :: real

definition get_cart :: "db \<Rightarrow> string \<Rightarrow> error + GetCartResponse" where
  "get_cart s uid =
     (case active_cart s uid of
        None \<Rightarrow> Inr \<lparr>GetCartResponse.items = [], GetCartResponse.subtotal = 0\<rparr>
      | Some (cid, c) \<Rightarrow>
          Inr \<lparr>GetCartResponse.items = Cart.items c, GetCartResponse.subtotal = Cart.subtotal c\<rparr>)"

subsection \<open>Checkout\<close>

text \<open>
  \<^verbatim>\<open>checkout\<close> reads its quantities from the store, where they are 64-bit
  integers: its sum of price times quantity is \<open>py_sum\<close> over the line totals,
  the conversion to \<^verbatim>\<open>float\<close> cannot raise there.
\<close>

text \<open>
  The stock loop of \<^verbatim>\<open>checkout\<close>: for each line item in turn, parse its
  \<^verbatim>\<open>product_id\<close> with \<^verbatim>\<open>oid\<close> and subtract the quantity from the stock of
  the product with that identifier. A malformed \<^verbatim>\<open>product_id\<close> raises there,
  after the decrements of the items before it.
\<close>

fun reduce_stock :: "db \<Rightarrow> CartItem list \<Rightarrow> db \<times> (error + unit)" where
  "reduce_stock s [] = (s, Inr ())"
| "reduce_stock s (i # rest) =
     (case oid (CartItem.product_id i) of
        Inl e \<Rightarrow> (s, Inl e)
      | Inr p \<Rightarrow>
          reduce_stock
            (s\<lparr>coll_product :=
                 update_one (\<lambda>k _. k = p)
                   (\<lambda>d. d\<lparr>Product.stock := Product.stock d + (- CartItem.quantity i)\<rparr>)
                   (coll_product s)\<rparr>)
            rest)"

record CheckoutResponse =
  order_id :: string
  total :: real

definition checkout :: "db \<Rightarrow> string \<Rightarrow> db \<times> (error + CheckoutResponse)" where
  "checkout s uid =
     (case active_cart s uid of
        None \<Rightarrow> (s, Inl (HTTPException 400 ''Cart is empty''))
      | Some (cid, c) \<Rightarrow>
          if Cart.items c = [] then (s, Inl (HTTPException 400 ''Cart is empty''))
          else
            (let tot = py_sum (map line_total (Cart.items c))
             in case Order_init uid (str_oid cid) (Cart.items c) tot ''pending'' ''gpay'' of
                  Inl e \<Rightarrow> (s, Inl e)
                | Inr order \<Rightarrow>
                    (let (s1, oid_str) = create_document_order s order
                     in case reduce_stock s1 (Cart.items c) of
                          (s2, Inl e) \<Rightarrow> (s2, Inl e)
                        | (s2, Inr _) \<Rightarrow>
                            (s2\<lparr>coll_cart :=
                                  update_one (\<lambda>i _. i = cid)
                                    (\<lambda>d. d\<lparr>Cart.status := ''checked_out''\<rparr>)
                                    (coll_cart s2)\<rparr>,
                             Inr \<lparr>CheckoutResponse.order_id = oid_str,
                                  CheckoutResponse.total = tot\<rparr>))))"


subsection \<open>Payment and receipt\<close>

definition pay_gpay :: "db \<Rightarrow> string \<Rightarrow> db \<times> (error + string)" where
  "pay_gpay s order_id_str =
     (case oid order_id_str of
        Inl e \<Rightarrow> (s, Inl e)
      | Inr k \<Rightarrow>
          (case find_one (\<lambda>i _. i = k) (coll_order s) of
             None \<Rightarrow> (s, Inl (HTTPException 404 ''Order not found''))
           | Some (i, r) \<Rightarrow>
               (s\<lparr>coll_order :=
                    update_one (\<lambda>j _. j = i) (\<lambda>d. d\<lparr>Order.status := ''paid''\<rparr>)
                      (coll_order s)\<rparr>,
                Inr ''success'')))"

record ReceiptRequest =
  order_id :: string
  email :: "string option"
  phone :: "string option"

record ReceiptResponse =
  status :: string
  to :: "string option"
  order_id :: string
  message :: string

text \<open>
  \<^verbatim>\<open>req.email or req.phone\<close>: the email unless it is missing or empty, the
  phone otherwise.
\<close>

definition email_or_phone :: "ReceiptRequest \<Rightarrow> string option" where
  "email_or_phone req =
     (case ReceiptRequest.email req of
        None \<Rightarrow> ReceiptRequest.phone req
      | Some e \<Rightarrow> if e = [] then ReceiptRequest.phone req else Some e)"

definition send_receipt :: "db \<Rightarrow> ReceiptRequest \<Rightarrow> error + ReceiptResponse" where
  "send_receipt s req =
     (case oid (ReceiptRequest.order_id req) of
        Inl e \<Rightarrow> Inl e
      | Inr k \<Rightarrow>
          (case find_one (\<lambda>i _. i = k) (coll_order s) of
             None \<Rightarrow> Inl (HTTPException 404 ''Order not found'')
           | Some _ \<Rightarrow>
               Inr \<lparr>ReceiptResponse.status = ''queued'',
                    ReceiptResponse.to = email_or_phone req,
                    ReceiptResponse.order_id = ReceiptRequest.order_id req,
                    ReceiptResponse.message = ''Receipt will be sent shortly''\<rparr>))"

subsection \<open>Manager statistics\<close>

text \<open>
  The aggregation stage \<^verbatim>\<open>{"$group": {"_id": None, "f": {"$sum": ...}}}\<close>:
  one result document holding the sum when at least one document reaches the
  stage, no result document otherwise. The handler's loop over the results
  keeps the value of the last one, starting from its default.
\<close>

definition group_sum :: "'a::monoid_add list \<Rightarrow> 'a list" where
  "group_sum vals = (if vals = [] then [] else [sum_list vals])"

definition last_or :: "'a \<Rightarrow> 'a list \<Rightarrow> 'a" where
  "last_or dflt results = foldl (\<lambda>acc r. r) dflt results"

record StatsResponse =
  total_items :: nat
  sold_items :: int
  remaining_items :: int
  daily_revenue :: real

definition sold_pipeline :: "db \<Rightarrow> int list" where
  "sold_pipeline s =
     group_sum
       (map CartItem.quantity
         (concat (map (\<lambda>d. Order.items (snd d))
           (filter (\<lambda>d. Order.status (snd d) \<in> set [''pending'', ''paid''])
             (coll_order s)))))"

definition remaining_pipeline :: "db \<Rightarrow> int list" where
  "remaining_pipeline s = group_sum (map (\<lambda>d. Product.stock (snd d)) (coll_product s))"

definition revenue_pipeline :: "db \<Rightarrow> real list" where
  "revenue_pipeline s =
     group_sum
       (map (\<lambda>d. Order.total (snd d))
         (filter (\<lambda>d. Order.status (snd d) = ''paid'') (coll_order s)))"

definition manager_stats :: "db \<Rightarrow> StatsResponse" where
  "manager_stats s =
     \<lparr>StatsResponse.total_items = length (coll_product s),
      StatsResponse.sold_items = last_or 0 (sold_pipeline s),
      StatsResponse.remaining_items = last_or 0 (remaining_pipeline s),
      StatsResponse.daily_revenue = last_or 0 (revenue_pipeline s)\<rparr>"

subsection \<open>A small store\<close>

text \<open>
  One customer, two products, her active cart, and three orders: one paid
  (total 10), one pending (total 5), one failed. Seven insertions so far.
\<close>

definition pen_id :: objectid where "pen_id = ''000000000000000000000001''"
definition milk_id :: objectid where "milk_id = ''000000000000000000000002''"
definition ann_id :: objectid where "ann_id = ''000000000000000000000000''"

definition pen_line :: "int \<Rightarrow> CartItem" where
  "pen_line q = \<lparr>CartItem.product_id = pen_id, CartItem.title = ''Pen'', CartItem.price = 3 / 2,
                  CartItem.quantity = q, CartItem.barcode = Some ''PEN123''\<rparr>"

definition milk_line :: "int \<Rightarrow> CartItem" where
  "milk_line q = \<lparr>CartItem.product_id = milk_id, CartItem.title = ''Milk'', CartItem.price = 2,
                   CartItem.quantity = q, CartItem.barcode = Some ''MILK123''\<rparr>"

definition shop_order :: "string \<Rightarrow> CartItem list \<Rightarrow> real \<Rightarrow> string \<Rightarrow> Order" where
  "shop_order cid its tot st =
     \<lparr>Order.user_id = ann_id, Order.cart_id = cid, Order.items = its, Order.total = tot,
      Order.status = st, Order.payment_method = Some ''gpay'', Order.created_at = None\<rparr>"

definition shop :: db where
  "shop =
     \<lparr>coll_user =
        [(ann_id, \<lparr>User.name = ''Ann'', User.email = ''ann@example.com'', User.phone = None,
                   User.password = ''secret'', User.role = ''customer'', User.is_active = True\<rparr>)],
      coll_product =
        [(pen_id, \<lparr>Product.title = ''Pen'', Product.description = None, Product.price = 3 / 2,
                   Product.barcode = Some ''PEN123'', Product.stock = 100,
                   Product.category = Some ''stationery'', Product.in_stock = True\<rparr>),
         (milk_id, \<lparr>Product.title = ''Milk'', Product.description = None, Product.price = 2,
                    Product.barcode = Some ''MILK123'', Product.stock = 50,
                    Product.category = Some ''grocery'', Product.in_stock = True\<rparr>)],
      coll_cart =
        [(''000000000000000000000003'',
          \<lparr>Cart.user_id = ann_id, Cart.items = [pen_line 2, milk_line 1],
           Cart.status = ''active'', Cart.subtotal = 5\<rparr>)],
      coll_order =
        [(''000000000000000000000004'',
          shop_order ''00000000000000000000000a'' [pen_line 4, milk_line 2] 10 ''paid''),
         (''000000000000000000000005'',
          shop_order ''00000000000000000000000b'' [pen_line 2, milk_line 1] 5 ''pending''),
         (''000000000000000000000006'',
          shop_order ''00000000000000000000000c'' [milk_line 1] 2 ''failed'')],
      next_id = 7\<rparr>"

text \<open>
  The same store after the customer added a line whose \<^verbatim>\<open>product_id\<close> holds
  the barcode instead of the product's identifier; \<^verbatim>\<open>cart_add\<close> accepts it.
\<close>

definition barcode_line :: CartItem where
  "barcode_line = \<lparr>CartItem.product_id = ''PEN123'', CartItem.title = ''Pen'',
                    CartItem.price = 3 / 2, CartItem.quantity = 1,
                    CartItem.barcode = Some ''PEN123''\<rparr>"

definition shop_bad :: db where
  "shop_bad = fst (cart_add shop ann_id barcode_line)"

text \<open>A request body for \<^verbatim>\<open>POST /cart/{user_id}/add\<close> with a negative price.\<close>

definition negative_body :: CartItem_fields where
  "negative_body = \<lparr>CartItem_fields.product_id = pen_id, CartItem_fields.title = ''Pen'',
                     CartItem_fields.price = - 1, CartItem_fields.quantity = Some 2,
                     CartItem_fields.barcode = None\<rparr>"


text \<open>A request body that asks for 2 ^ 63 pens.\<close>

definition huge_body :: CartItem_fields where
  "huge_body = \<lparr>CartItem_fields.product_id = pen_id, CartItem_fields.title = ''Pen'',
                 CartItem_fields.price = 3 / 2, CartItem_fields.quantity = Some (2 ^ 63),
                 CartItem_fields.barcode = Some ''PEN123''\<rparr>"

definition empty_db :: db where
  "empty_db = \<lparr>coll_user = [], coll_product = [], coll_cart = [], coll_order = [], next_id = 0\<rparr>"

section \<open>Properties\<close>

subsection \<open>Auxiliary facts about the store primitives\<close>


lemma find_one_None: "find_one q docs = None \<longleftrightarrow> (\<forall>d \<in> set docs. \<not> q (fst d) (snd d))"
  by (auto simp: find_one_def find_None_iff)

lemma find_one_SomeD: "find_one q docs = Some d \<Longrightarrow> d \<in> set docs \<and> q (fst d) (snd d)"
  by (auto simp: find_one_def find_Some_iff)

lemma find_one_update_one_id:
  "find_one (\<lambda>i _. i = k) (update_one (\<lambda>i _. i = k) f docs)
     = map_option (\<lambda>d. (fst d, f (snd d))) (find_one (\<lambda>i _. i = k) docs)"
  by (induction docs) (auto simp: find_one_def)

lemma update_one_id_idem:
  "(\<And>d. f (f d) = f d) \<Longrightarrow>
   update_one (\<lambda>i _. i = k) f (update_one (\<lambda>i _. i = k) f docs)
     = update_one (\<lambda>i _. i = k) f docs"
  by (induction docs) auto

lemma find_one_id_fst: "find_one (\<lambda>i _. i = k) docs = Some d \<Longrightarrow> fst d = k"
  by (auto dest: find_one_SomeD)

lemma find_one_id_mem:
  assumes "k \<in> fst ` set docs"
  shows "\<exists>r. find_one (\<lambda>i _. i = k) docs = Some (k, r)"
proof -
  from assms have "find_one (\<lambda>i _. i = k) docs \<noteq> None"
    by (auto simp: find_one_None)
  then obtain d where d: "find_one (\<lambda>i _. i = k) docs = Some d" by blast
  then have "fst d = k" by (rule find_one_id_fst)
  with d show ?thesis by (cases d) auto
qed

lemma sum_list_concat_map:
  "sum_list (concat xss) = sum_list (map sum_list xss)" for xss :: "int list list"
  by (induction xss) simp_all

lemma last_or_group_sum: "last_or 0 (group_sum vals) = sum_list vals"
  by (simp add: last_or_def group_sum_def)

lemma hexdigit_mem: "hexdigit d \<in> set ''0123456789abcdef''"
  unfolding hexdigit_def by (rule nth_mem) simp

lemma is_hex_hexdigit: "is_hex (hexdigit d)"
  using hexdigit_mem [of d] by (auto simp: is_hex_def)

lemma lower_hex_hexdigit: "lower_hex (hexdigit d) = hexdigit d"
  using hexdigit_mem [of d] by (auto simp: lower_hex_def)

lemma length_hex24: "length (hex24 n) = 24"
  by (simp add: hex24_def)

lemma is_hex_not_space: "is_hex c \<Longrightarrow> \<not> is_space c"
  by (auto simp: is_hex_def is_space_def)

lemma fromhex_hex_digits:
  "list_all is_hex xs \<Longrightarrow> even (length xs) \<Longrightarrow> fromhex xs = Some (map lower_hex xs)"
proof (induction xs rule: fromhex.induct)
  case 1
  then show ?case by simp
next
  case (2 c)
  then show ?case by simp
next
  case (3 c d rest)
  from "3.prems" have h: "is_hex c" "is_hex d" "list_all is_hex rest" "even (length rest)"
    by simp_all
  from h(1) have ns: "\<not> is_space c" by (rule is_hex_not_space)
  from "3.IH"(2) [OF ns] h have "fromhex rest = Some (map lower_hex rest)" by simp
  with ns h show ?case by simp
qed

lemma ObjectId_hex_digits:
  "length x = 24 \<Longrightarrow> list_all is_hex x \<Longrightarrow> ObjectId x = Some (map lower_hex x)"
  by (simp add: ObjectId_def fromhex_hex_digits)

lemma ObjectId_hex24: "ObjectId (hex24 n) = Some (hex24 n)"
proof -
  have "list_all is_hex (hex24 n)"
    by (simp add: hex24_def list_all_iff is_hex_hexdigit)
  moreover have "map lower_hex (hex24 n) = hex24 n"
    by (simp add: hex24_def lower_hex_hexdigit)
  ultimately show ?thesis by (simp add: ObjectId_hex_digits length_hex24)
qed

lemma int64_not_too_large: "int64 n \<Longrightarrow> \<not> float_too_large n"
proof -
  have g: "a < b \<Longrightarrow> b + b \<le> c \<Longrightarrow> - a \<le> m \<and> m < a \<Longrightarrow> \<not> c - b \<le> \<bar>m\<bar>"
    for a b c m :: int
    by linarith
  have l: "(2::int) ^ 63 < 2 ^ 970" by (rule power_strict_increasing) simp_all
  have "(2::int) ^ 970 + 2 ^ 970 = 2 ^ 971" by simp
  also have "\<dots> \<le> 2 ^ 1024" by (rule power_increasing) simp_all
  finally have u: "(2::int) ^ 970 + 2 ^ 970 \<le> 2 ^ 1024" .
  show "int64 n \<Longrightarrow> \<not> float_too_large n"
    unfolding int64_def float_too_large_def by (rule g [OF l u])
qed

lemma sum_lines_encodable:
  "bson_encodable its \<Longrightarrow> sum_lines acc its = Inr (acc + sum_list (map line_total its))"
  by (induction its arbitrary: acc) (simp_all add: bson_encodable_def int64_not_too_large)

lemma cart_add_found_encodable:
  "bson_encodable (cart_add_items item (Cart.items c)) \<Longrightarrow>
   cart_add_found s cid c item =
     (s\<lparr>coll_cart :=
          update_one (\<lambda>i _. i = cid)
            (\<lambda>d. d\<lparr>Cart.items := cart_add_items item (Cart.items c),
                    Cart.subtotal := sum_list (map line_total (cart_add_items item (Cart.items c)))\<rparr>)
            (coll_cart s)\<rparr>,
      Inr \<lparr>CartAddResponse.cart_id = str_oid cid,
           CartAddResponse.subtotal = sum_list (map line_total (cart_add_items item (Cart.items c))),
           CartAddResponse.items = cart_add_items item (Cart.items c)\<rparr>)"
  by (simp add: cart_add_found_def Let_def sum_lines_encodable)

lemma sum_lines_error: "sum_lines acc its = Inl e \<Longrightarrow> e = OverflowError"
  by (induction its arbitrary: acc) (auto split: if_splits)

lemma cart_add_found_not_encodable:
  "\<not> bson_encodable (cart_add_items item (Cart.items c)) \<Longrightarrow>
   cart_add_found s cid c item = (s, Inl OverflowError)"
  by (cases "sum_lines 0 (cart_add_items item (Cart.items c))")
     (auto simp: cart_add_found_def Let_def dest: sum_lines_error)

lemma update_one_id_map:
  "distinct (map fst docs) \<Longrightarrow>
   update_one (\<lambda>i _. i = k) f docs = map (\<lambda>d. if fst d = k then (fst d, f (snd d)) else d) docs"
proof (induction docs)
  case Nil
  then show ?case by simp
next
  case (Cons d docs)
  show ?case
  proof (cases "fst d = k")
    case True
    with Cons.prems have "\<forall>x \<in> set docs. fst x \<noteq> k" by (auto simp: image_iff)
    then have "map (\<lambda>d. if fst d = k then (fst d, f (snd d)) else d) docs = docs"
      by (simp add: map_idI)
    with True show ?thesis by simp
  next
    case False
    with Cons show ?thesis by simp
  qed
qed

lemma update_one_id_absent:
  "k \<notin> fst ` set docs \<Longrightarrow> update_one (\<lambda>i _. i = k) f docs = docs"
  by (induction docs) auto

lemma update_one_id_append_fresh:
  "k \<notin> fst ` set docs \<Longrightarrow>
   update_one (\<lambda>i _. i = k) f (docs @ [(k, d)]) = docs @ [(k, f d)]"
  by (induction docs) auto

lemma map_fst_update_one: "map fst (update_one q f docs) = map fst docs"
  by (induction docs) auto

lemma find_one_append:
  "find_one q (xs @ ys) = (case find_one q xs of None \<Rightarrow> find_one q ys | Some d \<Rightarrow> Some d)"
  by (induction xs) (auto simp: find_one_def)

lemma find_one_update_one_found:
  assumes "distinct (map fst docs)" and "find_one q docs = Some (cid, c)"
      and "\<And>i d. q i (f d) = q i d"
  shows "find_one q (update_one (\<lambda>i _. i = cid) f docs) = Some (cid, f c)"
  using assms(1,2)
proof (induction docs)
  case Nil
  then show ?case by (simp add: find_one_def)
next
  case (Cons d docs)
  show ?case
  proof (cases "q (fst d) (snd d)")
    case True
    with Cons.prems(2) have "d = (cid, c)" by (simp add: find_one_def)
    with True assms(3) show ?thesis by (simp add: find_one_def)
  next
    case False
    with Cons.prems(2) have f: "find_one q docs = Some (cid, c)" by (simp add: find_one_def)
    then have "(cid, c) \<in> set docs" by (auto simp: find_one_def find_Some_iff)
    with Cons.prems(1) have ne: "fst d \<noteq> cid" by (auto simp: image_iff)
    from Cons.prems(1) have "distinct (map fst docs)" by simp
    with Cons.IH f have "find_one q (update_one (\<lambda>i _. i = cid) f docs) = Some (cid, f c)" by simp
    with False ne show ?thesis by (simp add: find_one_def)
  qed
qed

lemma merge_loop_absent:
  "\<forall>x \<in> set its. CartItem.product_id x \<noteq> CartItem.product_id item \<Longrightarrow>
   merge_loop item its = (its, False)"
  by (induction its) auto

lemma merge_loop_present:
  "\<forall>x \<in> set pre. CartItem.product_id x \<noteq> CartItem.product_id item \<Longrightarrow>
   CartItem.product_id ci = CartItem.product_id item \<Longrightarrow>
   merge_loop item (pre @ ci # post)
     = (pre @ ci\<lparr>CartItem.quantity := CartItem.quantity ci + CartItem.quantity item\<rparr> # post, True)"
  by (induction pre) auto

lemma cart_add_items_absent:
  "\<forall>x \<in> set its. CartItem.product_id x \<noteq> CartItem.product_id item \<Longrightarrow>
   cart_add_items item its = its @ [item]"
  by (simp add: cart_add_items_def merge_loop_absent)

lemma cart_add_items_present:
  "\<forall>x \<in> set pre. CartItem.product_id x \<noteq> CartItem.product_id item \<Longrightarrow>
   CartItem.product_id ci = CartItem.product_id item \<Longrightarrow>
   cart_add_items item (pre @ ci # post)
     = pre @ ci\<lparr>CartItem.quantity := CartItem.quantity ci + CartItem.quantity item\<rparr> # post"
  by (simp add: cart_add_items_def merge_loop_present)

lemma first_match_split:
  "\<exists>x \<in> set xs. P x \<Longrightarrow> \<exists>pre y post. xs = pre @ y # post \<and> (\<forall>x \<in> set pre. \<not> P x) \<and> P y"
  by (metis split_list_first_prop)

lemma cart_add_existing:
  assumes "distinct (map fst (coll_cart s))" and "active_cart s uid = Some (cid, c)"
      and "bson_encodable (cart_add_items item (Cart.items c))"
  shows "cart_add s uid item =
     (s\<lparr>coll_cart := map (\<lambda>d. if fst d = cid
            then (fst d, (snd d)\<lparr>Cart.items := cart_add_items item (Cart.items c),
                     Cart.subtotal := sum_list (map line_total (cart_add_items item (Cart.items c)))\<rparr>)
            else d) (coll_cart s)\<rparr>,
      Inr \<lparr>CartAddResponse.cart_id = cid,
           CartAddResponse.subtotal = sum_list (map line_total (cart_add_items item (Cart.items c))),
           CartAddResponse.items = cart_add_items item (Cart.items c)\<rparr>)"
  using assms
  by (simp add: cart_add_def cart_add_found_encodable update_one_id_map str_oid_def)

lemma active_cart_after_existing:
  assumes "distinct (map fst (coll_cart s))" and "active_cart s uid = Some (cid, c)"
      and "bson_encodable (cart_add_items item (Cart.items c))"
  shows "active_cart (fst (cart_add s uid item)) uid
     = Some (cid, c\<lparr>Cart.items := cart_add_items item (Cart.items c),
                    Cart.subtotal := sum_list (map line_total (cart_add_items item (Cart.items c)))\<rparr>)"
proof -
  let ?f = "\<lambda>d. d\<lparr>Cart.items := cart_add_items item (Cart.items c),
                    Cart.subtotal := sum_list (map line_total (cart_add_items item (Cart.items c)))\<rparr>"
  have "find_one (\<lambda>_ c. Cart.user_id c = uid \<and> Cart.status c = ''active'')
          (update_one (\<lambda>i _. i = cid) ?f (coll_cart s)) = Some (cid, ?f c)"
    using assms(1,2) by (intro find_one_update_one_found) (simp_all add: active_cart_def)
  then show ?thesis
    using assms(2,3) by (simp add: cart_add_def cart_add_found_encodable active_cart_def)
qed

lemma cart_add_new:
  assumes "hex24 (next_id s) \<notin> fst ` set (coll_cart s)" and "active_cart s uid = None"
      and "int64 (CartItem.quantity item)"
  shows "cart_add s uid item =
     (s\<lparr>coll_cart := coll_cart s @ [(hex24 (next_id s),
            \<lparr>Cart.user_id = uid, Cart.items = [item], Cart.status = ''active'',
             Cart.subtotal = line_total item\<rparr>)],
         next_id := Suc (next_id s)\<rparr>,
      Inr \<lparr>CartAddResponse.cart_id = hex24 (next_id s),
           CartAddResponse.subtotal = line_total item,
           CartAddResponse.items = [item]\<rparr>)"
proof -
  have e: "bson_encodable (cart_add_items item [])"
    using assms(3) by (simp add: cart_add_items_def bson_encodable_def)
  have i: "cart_add_items item [] = [item]" by (simp add: cart_add_items_def)
  show ?thesis
    using assms(1,2) e
    by (simp add: cart_add_def create_document_cart_def Let_def str_oid_def ObjectId_hex24
          cart_add_found_encodable update_one_id_append_fresh i)
qed

lemma active_cart_after_new:
  assumes "hex24 (next_id s) \<notin> fst ` set (coll_cart s)" and "active_cart s uid = None"
      and "int64 (CartItem.quantity item)"
  shows "active_cart (fst (cart_add s uid item)) uid
     = Some (hex24 (next_id s),
            \<lparr>Cart.user_id = uid, Cart.items = [item], Cart.status = ''active'',
             Cart.subtotal = line_total item\<rparr>)"
  using assms(2) unfolding cart_add_new [OF assms]
  by (simp add: active_cart_def find_one_append) (simp add: find_one_def)

lemma last_hex24: "last (hex24 n) = hexdigit n"
  by (simp add: hex24_def last_map last_rev)

lemma cart_add_step_existing:
  assumes "distinct (map fst (coll_cart s))" and "active_cart s uid = Some (cid, c)"
      and "bson_encodable (cart_add_items item (Cart.items c))"
  shows "\<exists>s' c'. cart_add s uid item =
           (s', Inr \<lparr>CartAddResponse.cart_id = str_oid cid,
                     CartAddResponse.subtotal = sum_list (map line_total (cart_add_items item (Cart.items c))),
                     CartAddResponse.items = cart_add_items item (Cart.items c)\<rparr>)
         \<and> active_cart s' uid = Some (cid, c')
         \<and> Cart.items c' = cart_add_items item (Cart.items c)
         \<and> Cart.subtotal c' = sum_list (map line_total (cart_add_items item (Cart.items c)))
         \<and> distinct (map fst (coll_cart s'))"
proof -
  obtain s' r where e: "cart_add s uid item = (s', r)" by (cases "cart_add s uid item")
  have a: "active_cart (fst (cart_add s uid item)) uid
     = Some (cid, c\<lparr>Cart.items := cart_add_items item (Cart.items c),
                    Cart.subtotal := sum_list (map line_total (cart_add_items item (Cart.items c)))\<rparr>)"
    using assms by (rule active_cart_after_existing)
  have d: "distinct (map fst (coll_cart s'))"
    using e assms(1) unfolding cart_add_existing [OF assms] by (auto simp: comp_def if_distrib cong: if_cong)
  show ?thesis
    using e a d unfolding cart_add_existing [OF assms] by (auto simp: str_oid_def)
qed

lemma cart_add_step_new:
  assumes "distinct (map fst (coll_cart s))" and "hex24 (next_id s) \<notin> fst ` set (coll_cart s)"
      and "active_cart s uid = None" and "int64 (CartItem.quantity item)"
  shows "\<exists>s' c'. cart_add s uid item =
           (s', Inr \<lparr>CartAddResponse.cart_id = str_oid (hex24 (next_id s)),
                     CartAddResponse.subtotal = sum_list (map line_total [item]),
                     CartAddResponse.items = [item]\<rparr>)
         \<and> active_cart s' uid = Some (hex24 (next_id s), c')
         \<and> Cart.items c' = [item]
         \<and> Cart.subtotal c' = sum_list (map line_total [item])
         \<and> distinct (map fst (coll_cart s'))"
proof -
  have a: "active_cart (fst (cart_add s uid item)) uid
     = Some (hex24 (next_id s),
            \<lparr>Cart.user_id = uid, Cart.items = [item], Cart.status = ''active'',
             Cart.subtotal = line_total item\<rparr>)"
    using assms(2,3,4) by (rule active_cart_after_new)
  show ?thesis
    using a assms(1,2) unfolding cart_add_new [OF assms(2,3,4)] by (simp add: str_oid_def)
qed

lemma cart_add_step:
  assumes "distinct (map fst (coll_cart s))" and "hex24 (next_id s) \<notin> fst ` set (coll_cart s)"
      and "bson_encodable (cart_add_items item (active_items s uid))"
  shows "\<exists>s' cid c'. cart_add s uid item =
           (s', Inr \<lparr>CartAddResponse.cart_id = str_oid cid,
                     CartAddResponse.subtotal = sum_list (map line_total (cart_add_items item (active_items s uid))),
                     CartAddResponse.items = cart_add_items item (active_items s uid)\<rparr>)
         \<and> active_cart s' uid = Some (cid, c')
         \<and> Cart.items c' = cart_add_items item (active_items s uid)
         \<and> Cart.subtotal c' = sum_list (map line_total (cart_add_items item (active_items s uid)))
         \<and> distinct (map fst (coll_cart s'))"
proof (cases "active_cart s uid")
  case None
  then have "active_items s uid = []" by (simp add: active_items_def)
  then have i: "cart_add_items item (active_items s uid) = [item]"
    by (simp add: cart_add_items_def)
  with assms(3) have q: "int64 (CartItem.quantity item)" by (simp add: bson_encodable_def)
  from i cart_add_step_new [OF assms(1,2) None q] show ?thesis by metis
next
  case (Some d)
  obtain cid c where d: "d = (cid, c)" by (cases d)
  with Some have i: "active_items s uid = Cart.items c" by (simp add: active_items_def)
  from assms(3) have e: "bson_encodable (cart_add_items item (Cart.items c))" by (simp add: i)
  from i cart_add_step_existing [OF assms(1) Some [unfolded d] e] show ?thesis by metis
qed

lemma line_total_sum_snoc:
  "sum_list (map line_total (its @ [i\<lparr>CartItem.quantity := q\<rparr>]))
     = sum_list (map line_total its) + CartItem.price i * real_of_int q"
  by (simp add: line_total_def)

lemmas shop_defs =
  shop_def shop_order_def pen_line_def milk_line_def pen_id_def milk_id_def ann_id_def

lemmas oid_defs = oid_def ObjectId_def is_hex_def lower_hex_def is_space_def

subsection \<open>Login\<close>

text \<open>
  Claim C8. A login with a registered email and a password that no user with
  that email has, and a login with an email that no user has, have the same
  outcome: the exception with status 401 and detail "Invalid credentials".
  As \<open>login\<close> only reads, the outcome is all there is to observe.
\<close>

theorem login_failure_indistinguishable:
  assumes "\<exists>d \<in> set (coll_user s). User.email (snd d) = LoginRequest.email r1"
      and "\<forall>d \<in> set (coll_user s). User.email (snd d) = LoginRequest.email r1
             \<longrightarrow> User.password (snd d) \<noteq> LoginRequest.password r1"
      and "\<forall>d \<in> set (coll_user s). User.email (snd d) \<noteq> LoginRequest.email r2"
  shows "login s r1 = Inl (HTTPException 401 ''Invalid credentials'')
         \<and> login s r2 = login s r1"
proof -
  have "find_one (\<lambda>_ u. User.email u = LoginRequest.email r1
            \<and> User.password u = LoginRequest.password r1) (coll_user s) = None"
    using assms(2) by (auto simp: find_one_None)
  moreover have "find_one (\<lambda>_ u. User.email u = LoginRequest.email r2
            \<and> User.password u = LoginRequest.password r2) (coll_user s) = None"
    using assms(3) by (auto simp: find_one_None)
  ultimately show ?thesis by (simp add: login_def)
qed

theorem login_failure_indistinguishable_witness:
  "login shop \<lparr>LoginRequest.email = ''ann@example.com'', LoginRequest.password = ''guess''\<rparr>
     = Inl (HTTPException 401 ''Invalid credentials'')
   \<and> login shop \<lparr>LoginRequest.email = ''bob@example.com'', LoginRequest.password = ''secret''\<rparr>
     = login shop \<lparr>LoginRequest.email = ''ann@example.com'', LoginRequest.password = ''guess''\<rparr>"
  using login_failure_indistinguishable
    [of shop "\<lparr>LoginRequest.email = ''ann@example.com'', LoginRequest.password = ''guess''\<rparr>"
        "\<lparr>LoginRequest.email = ''bob@example.com'', LoginRequest.password = ''secret''\<rparr>"]
  by (simp add: shop_def)

subsection \<open>Payment\<close>

text \<open>
  Claim C9. For an order identifier that parses and names a stored order,
  whatever the order's status, \<open>pay_gpay\<close> answers "success", the order found
  under that identifier afterwards has status "paid", and paying again
  answers the same and leaves the store as the first payment left it.
\<close>

theorem pay_gpay_idempotent:
  assumes "ObjectId order_id_str = Some k" and "k \<in> fst ` set (coll_order s)"
  shows "snd (pay_gpay s order_id_str) = Inr ''success''
       \<and> map_option (\<lambda>d. Order.status (snd d))
            (find_one (\<lambda>i _. i = k) (coll_order (fst (pay_gpay s order_id_str)))) = Some ''paid''
       \<and> pay_gpay (fst (pay_gpay s order_id_str)) order_id_str
            = (fst (pay_gpay s order_id_str), Inr ''success'')"
proof -
  from assms(2) obtain r where r: "find_one (\<lambda>i _. i = k) (coll_order s) = Some (k, r)"
    using find_one_id_mem by blast
  let ?f = "\<lambda>d. d\<lparr>Order.status := ''paid''\<rparr>"
  let ?s' = "s\<lparr>coll_order := update_one (\<lambda>j _. j = k) ?f (coll_order s)\<rparr>"
  have p1: "pay_gpay s order_id_str = (?s', Inr ''success'')"
    using assms(1) r by (simp add: pay_gpay_def oid_def)
  have f2: "find_one (\<lambda>i _. i = k) (coll_order ?s') = Some (k, ?f r)"
    using r by (simp add: find_one_update_one_id)
  have p2: "pay_gpay ?s' order_id_str = (?s', Inr ''success'')"
    using assms(1) f2 by (simp add: pay_gpay_def oid_def update_one_id_idem)
  show ?thesis using p1 p2 f2 by simp
qed

theorem pay_gpay_idempotent_witness:
  "ObjectId ''000000000000000000000005'' = Some ''000000000000000000000005''
   \<and> ''000000000000000000000005'' \<in> fst ` set (coll_order shop)
   \<and> map_option (\<lambda>d. Order.status (snd d))
        (find_one (\<lambda>i _. i = ''000000000000000000000005'') (coll_order shop)) = Some ''pending''
   \<and> snd (pay_gpay shop ''000000000000000000000005'') = Inr ''success''
   \<and> map_option (\<lambda>d. Order.status (snd d))
        (find_one (\<lambda>i _. i = ''000000000000000000000005'')
           (coll_order (fst (pay_gpay shop ''000000000000000000000005'')))) = Some ''paid''
   \<and> pay_gpay (fst (pay_gpay shop ''000000000000000000000005'')) ''000000000000000000000005''
       = (fst (pay_gpay shop ''000000000000000000000005''), Inr ''success'')
   \<and> map_option (\<lambda>d. Order.status (snd d))
        (find_one (\<lambda>i _. i = ''000000000000000000000004'') (coll_order shop)) = Some ''paid''
   \<and> snd (pay_gpay shop ''000000000000000000000004'') = Inr ''success''
   \<and> map_option (\<lambda>d. Order.status (snd d))
        (find_one (\<lambda>i _. i = ''000000000000000000000004'')
           (coll_order (fst (pay_gpay shop ''000000000000000000000004'')))) = Some ''paid''"
proof -
  have h1: "ObjectId ''000000000000000000000005'' = Some ''000000000000000000000005''"
    by (simp add: ObjectId_hex_digits is_hex_def lower_hex_def)
  have h2: "''000000000000000000000005'' \<in> fst ` set (coll_order shop)"
    by (simp add: shop_def)
  have b5: "map_option (\<lambda>d. Order.status (snd d))
        (find_one (\<lambda>i _. i = ''000000000000000000000005'') (coll_order shop)) = Some ''pending''"
    by (simp add: find_one_def shop_def shop_order_def)
  have k1: "ObjectId ''000000000000000000000004'' = Some ''000000000000000000000004''"
    by (simp add: ObjectId_hex_digits is_hex_def lower_hex_def)
  have k2: "''000000000000000000000004'' \<in> fst ` set (coll_order shop)"
    by (simp add: shop_def)
  have b4: "map_option (\<lambda>d. Order.status (snd d))
        (find_one (\<lambda>i _. i = ''000000000000000000000004'') (coll_order shop)) = Some ''paid''"
    by (simp add: find_one_def shop_def shop_order_def)
  note p5 = pay_gpay_idempotent [OF h1 h2]
  note p4 = pay_gpay_idempotent [OF k1 k2]
  show ?thesis
    apply (intro conjI)
            apply (rule h1)
           apply (rule h2)
          apply (rule b5)
         apply (rule p5 [THEN conjunct1])
        apply (rule p5 [THEN conjunct2, THEN conjunct1])
       apply (rule p5 [THEN conjunct2, THEN conjunct2])
      apply (rule b4)
     apply (rule p4 [THEN conjunct1])
    apply (rule p4 [THEN conjunct2, THEN conjunct1])
    done
qed

subsection \<open>Checkout without a cart to check out\<close>

text \<open>
  Claim C3. When the user has no active cart, or the active cart found for
  the user has no items, \<open>checkout\<close> raises the exception with status 400
  and the store is the one it started from: no order, no stock change, no
  change to any cart.
\<close>

theorem checkout_empty_or_missing_cart:
  assumes "(\<forall>d \<in> set (coll_cart s).
              \<not> (Cart.user_id (snd d) = uid \<and> Cart.status (snd d) = ''active''))
         \<or> (\<exists>cid c. active_cart s uid = Some (cid, c) \<and> Cart.items c = [])"
  shows "checkout s uid = (s, Inl (HTTPException 400 ''Cart is empty''))"
  using assms
proof
  assume "\<forall>d \<in> set (coll_cart s).
            \<not> (Cart.user_id (snd d) = uid \<and> Cart.status (snd d) = ''active'')"
  then have "active_cart s uid = None"
    by (simp add: active_cart_def find_one_None)
  then show ?thesis by (simp add: checkout_def)
next
  assume "\<exists>cid c. active_cart s uid = Some (cid, c) \<and> Cart.items c = []"
  then show ?thesis by (auto simp: checkout_def)
qed

theorem checkout_empty_or_missing_cart_witness:
  "list_all (\<lambda>d. \<not> (Cart.user_id (snd d) = ''000000000000000000000009''
                       \<and> Cart.status (snd d) = ''active'')) (coll_cart shop)
   \<and> checkout shop ''000000000000000000000009'' = (shop, Inl (HTTPException 400 ''Cart is empty''))
   \<and> (\<exists>cid c. active_cart (shop\<lparr>coll_cart := [(''000000000000000000000003'',
                    \<lparr>Cart.user_id = ann_id, Cart.items = [], Cart.status = ''active'',
                     Cart.subtotal = 0\<rparr>)]\<rparr>) ann_id = Some (cid, c) \<and> Cart.items c = [])
   \<and> checkout (shop\<lparr>coll_cart := [(''000000000000000000000003'',
                    \<lparr>Cart.user_id = ann_id, Cart.items = [], Cart.status = ''active'',
                     Cart.subtotal = 0\<rparr>)]\<rparr>) ann_id
       = (shop\<lparr>coll_cart := [(''000000000000000000000003'',
                    \<lparr>Cart.user_id = ann_id, Cart.items = [], Cart.status = ''active'',
                     Cart.subtotal = 0\<rparr>)]\<rparr>, Inl (HTTPException 400 ''Cart is empty''))"
proof -
  let ?s2 = "shop\<lparr>coll_cart := [(''000000000000000000000003'',
                    \<lparr>Cart.user_id = ann_id, Cart.items = [], Cart.status = ''active'',
                     Cart.subtotal = 0\<rparr>)]\<rparr>"
  have h1: "\<forall>d \<in> set (coll_cart shop).
      \<not> (Cart.user_id (snd d) = ''000000000000000000000009'' \<and> Cart.status (snd d) = ''active'')"
    by (simp add: shop_defs)
  have h2: "\<exists>cid c. active_cart ?s2 ann_id = Some (cid, c) \<and> Cart.items c = []"
    by (simp add: active_cart_def find_one_def)
  have c1: "checkout shop ''000000000000000000000009''
              = (shop, Inl (HTTPException 400 ''Cart is empty''))"
    using h1 checkout_empty_or_missing_cart [of shop "''000000000000000000000009''"] by blast
  have c2: "checkout ?s2 ann_id = (?s2, Inl (HTTPException 400 ''Cart is empty''))"
    using h2 checkout_empty_or_missing_cart [of ?s2 ann_id] by blast
  from h1 h2 c1 c2 show ?thesis by (simp only: list_all_iff)
qed

subsection \<open>Manager statistics\<close>

text \<open>
  Claim C7. In every store, \<open>manager_stats\<close> reports as daily revenue the sum
  of the totals of the orders whose status is "paid", as sold items the sum
  of the item quantities of the orders whose status is "pending" or "paid",
  and as remaining items the sum of the stock of all products; each of the
  three is 0 when no document contributes to it.
\<close>

theorem manager_stats_aggregates:
  "StatsResponse.daily_revenue (manager_stats s)
     = sum_list (map (\<lambda>d. Order.total (snd d))
         (filter (\<lambda>d. Order.status (snd d) = ''paid'') (coll_order s)))
   \<and> StatsResponse.sold_items (manager_stats s)
     = sum_list (map (\<lambda>d. sum_list (map CartItem.quantity (Order.items (snd d))))
         (filter (\<lambda>d. Order.status (snd d) = ''pending'' \<or> Order.status (snd d) = ''paid'')
            (coll_order s)))
   \<and> StatsResponse.remaining_items (manager_stats s)
     = sum_list (map (\<lambda>d. Product.stock (snd d)) (coll_product s))
   \<and> ((\<forall>d \<in> set (coll_order s). Order.status (snd d) \<noteq> ''paid'')
        \<longrightarrow> StatsResponse.daily_revenue (manager_stats s) = 0)
   \<and> ((\<forall>d \<in> set (coll_order s).
          Order.status (snd d) \<noteq> ''pending'' \<and> Order.status (snd d) \<noteq> ''paid'')
        \<longrightarrow> StatsResponse.sold_items (manager_stats s) = 0)
   \<and> (coll_product s = [] \<longrightarrow> StatsResponse.remaining_items (manager_stats s) = 0)"
proof -
  have rev: "StatsResponse.daily_revenue (manager_stats s)
     = sum_list (map (\<lambda>d. Order.total (snd d))
         (filter (\<lambda>d. Order.status (snd d) = ''paid'') (coll_order s)))"
    by (simp add: manager_stats_def revenue_pipeline_def last_or_group_sum)
  have sold: "StatsResponse.sold_items (manager_stats s)
     = sum_list (map (\<lambda>d. sum_list (map CartItem.quantity (Order.items (snd d))))
         (filter (\<lambda>d. Order.status (snd d) = ''pending'' \<or> Order.status (snd d) = ''paid'')
            (coll_order s)))"
    by (simp add: manager_stats_def sold_pipeline_def last_or_group_sum map_concat
          sum_list_concat_map comp_def)
  have rem: "StatsResponse.remaining_items (manager_stats s)
     = sum_list (map (\<lambda>d. Product.stock (snd d)) (coll_product s))"
    by (simp add: manager_stats_def remaining_pipeline_def last_or_group_sum)
  have z1: "(\<forall>d \<in> set (coll_order s). Order.status (snd d) \<noteq> ''paid'')
        \<longrightarrow> StatsResponse.daily_revenue (manager_stats s) = 0"
    unfolding rev by (simp add: filter_False)
  have z2: "(\<forall>d \<in> set (coll_order s).
          Order.status (snd d) \<noteq> ''pending'' \<and> Order.status (snd d) \<noteq> ''paid'')
        \<longrightarrow> StatsResponse.sold_items (manager_stats s) = 0"
    unfolding sold by (simp add: filter_False)
  have z3: "coll_product s = [] \<longrightarrow> StatsResponse.remaining_items (manager_stats s) = 0"
    unfolding rem by simp
  from rev sold rem z1 z2 z3 show ?thesis by blast
qed

theorem manager_stats_aggregates_witness:
  "StatsResponse.daily_revenue (manager_stats shop) = 10
   \<and> StatsResponse.sold_items (manager_stats shop) = 9
   \<and> StatsResponse.remaining_items (manager_stats shop) = 150
   \<and> coll_order empty_db = []
   \<and> coll_product empty_db = []
   \<and> StatsResponse.daily_revenue (manager_stats empty_db) = 0
   \<and> StatsResponse.sold_items (manager_stats empty_db) = 0
   \<and> StatsResponse.remaining_items (manager_stats empty_db) = 0"
proof -
  have e: "coll_order empty_db = []" "coll_product empty_db = []"
    by (simp_all add: empty_db_def)
  have a: "StatsResponse.daily_revenue (manager_stats shop) = 10"
    using manager_stats_aggregates [of shop] by (simp add: shop_defs)
  have b: "StatsResponse.sold_items (manager_stats shop) = 9"
    using manager_stats_aggregates [of shop] by (simp add: shop_defs)
  have c: "StatsResponse.remaining_items (manager_stats shop) = 150"
    using manager_stats_aggregates [of shop] by (simp add: shop_defs)
  have z: "StatsResponse.daily_revenue (manager_stats empty_db) = 0
     \<and> StatsResponse.sold_items (manager_stats empty_db) = 0
     \<and> StatsResponse.remaining_items (manager_stats empty_db) = 0"
    using manager_stats_aggregates [of empty_db] e by simp
  from a b c z e show ?thesis by simp
qed

subsection \<open>Adding to the cart\<close>

lemma hex24_neq: "last x \<noteq> hexdigit n \<Longrightarrow> hex24 n \<noteq> x"
  using last_hex24 [of n] by auto

lemma shop_cart_ids:
  "distinct (map fst (coll_cart shop))" "hex24 (next_id shop) \<notin> fst ` set (coll_cart shop)"
  by (simp_all add: shop_def hex24_neq hexdigit_def)

lemma shop_active_ann: "active_items shop ann_id = [pen_line 2, milk_line 1]"
  by (simp add: active_items_def active_cart_def find_one_def shop_def)

lemma shop_active_bob: "active_items shop ''000000000000000000000009'' = []"
  by (simp add: active_items_def active_cart_def find_one_def shop_def ann_id_def)

lemma active_cart_empty_db: "active_cart empty_db uid = None"
  by (simp add: active_cart_def find_one_def empty_db_def)

lemma fresh_empty_db: "hex24 (next_id empty_db) \<notin> fst ` set (coll_cart empty_db)"
  by (simp add: empty_db_def)

lemma cart_add_new_overflow:
  assumes "active_cart s uid = None" and "\<not> int64 (CartItem.quantity item)"
  shows "cart_add s uid item =
     (s\<lparr>coll_cart := coll_cart s @ [(hex24 (next_id s),
            \<lparr>Cart.user_id = uid, Cart.items = [], Cart.status = ''active'',
             Cart.subtotal = 0\<rparr>)],
         next_id := Suc (next_id s)\<rparr>,
      Inl OverflowError)"
proof -
  have n: "\<not> bson_encodable (cart_add_items item [])"
    using assms(2) by (simp add: cart_add_items_def bson_encodable_def)
  show ?thesis
    using assms(1) n
    by (simp add: cart_add_def create_document_cart_def Let_def str_oid_def ObjectId_hex24
          cart_add_found_not_encodable)
qed


lemma encodable_after_add:
  assumes stored: "\<forall>i \<in> set its. int64 (CartItem.quantity i)"
      and app: "(\<forall>x \<in> set its. CartItem.product_id x \<noteq> CartItem.product_id item)
                 \<longrightarrow> int64 (CartItem.quantity item)"
      and mrg: "\<forall>pre ci post.
                 its = pre @ ci # post
                 \<and> (\<forall>x \<in> set pre. CartItem.product_id x \<noteq> CartItem.product_id item)
                 \<and> CartItem.product_id ci = CartItem.product_id item
                 \<longrightarrow> int64 (CartItem.quantity ci + CartItem.quantity item)"
  shows "bson_encodable (cart_add_items item its)"
proof (cases "\<exists>x \<in> set its. CartItem.product_id x = CartItem.product_id item")
  case True
  then obtain pre ci post where
    d: "its = pre @ ci # post"
       "\<forall>x \<in> set pre. CartItem.product_id x \<noteq> CartItem.product_id item"
       "CartItem.product_id ci = CartItem.product_id item"
    using first_match_split [of its "\<lambda>x. CartItem.product_id x = CartItem.product_id item"]
    by blast
  with mrg have q: "int64 (CartItem.quantity ci + CartItem.quantity item)" by blast
  from d have e: "cart_add_items item its
      = pre @ ci\<lparr>CartItem.quantity := CartItem.quantity ci + CartItem.quantity item\<rparr> # post"
    by (simp add: cart_add_items_present)
  from stored d(1) have "\<forall>i \<in> set pre \<union> set post. int64 (CartItem.quantity i)" by simp
  with q show ?thesis unfolding e by (simp add: bson_encodable_def list_all_iff)
next
  case False
  then have n: "\<forall>x \<in> set its. CartItem.product_id x \<noteq> CartItem.product_id item" by simp
  with app have "int64 (CartItem.quantity item)" by blast
  with stored show ?thesis
    by (simp add: cart_add_items_absent [OF n] bson_encodable_def list_all_iff)
qed

text \<open>
  Claim C2, as stated, fails: \<^verbatim>\<open>CartItem\<close> accepts any quantity from 1 on,
  and a quantity of 2 ^ 63 does not fit the store's 64-bit integers. The
  request creates the cart, then raises \<^verbatim>\<open>OverflowError\<close> when the update is
  encoded, and the cart is left without the line.
\<close>

theorem cart_add_overflow_counterexample:
  "CartItem_init huge_body = Inr (pen_line (2 ^ 63))
   \<and> post_cart_add empty_db ann_id huge_body
       = (empty_db\<lparr>coll_cart :=
                      [(hex24 0, \<lparr>Cart.user_id = ann_id, Cart.items = [],
                                   Cart.status = ''active'', Cart.subtotal = 0\<rparr>)],
                    next_id := 1\<rparr>,
          Inl OverflowError)"
proof -
  have a: "CartItem_init huge_body = Inr (pen_line (2 ^ 63))"
    by (simp add: CartItem_init_def huge_body_def pen_line_def)
  have n: "\<not> int64 (CartItem.quantity (pen_line (2 ^ 63)))"
    by (simp add: int64_def pen_line_def)
  have e: "empty_db\<lparr>coll_cart := coll_cart empty_db @ [(hex24 (next_id empty_db),
                \<lparr>Cart.user_id = ann_id, Cart.items = [], Cart.status = ''active'',
                 Cart.subtotal = 0\<rparr>)],
             next_id := Suc (next_id empty_db)\<rparr>
         = empty_db\<lparr>coll_cart :=
                      [(hex24 0, \<lparr>Cart.user_id = ann_id, Cart.items = [],
                                   Cart.status = ''active'', Cart.subtotal = 0\<rparr>)],
                    next_id := 1\<rparr>"
    by (simp add: empty_db_def)
  have b: "post_cart_add empty_db ann_id huge_body
       = (empty_db\<lparr>coll_cart :=
                      [(hex24 0, \<lparr>Cart.user_id = ann_id, Cart.items = [],
                                   Cart.status = ''active'', Cart.subtotal = 0\<rparr>)],
                    next_id := 1\<rparr>,
          Inl OverflowError)"
    unfolding post_cart_add_def a sum.case
      cart_add_new_overflow [OF active_cart_empty_db n] e
    by (rule refl)
  show ?thesis
    apply (intro conjI)
     apply (rule a)
    apply (rule b)
    done
qed

text \<open>
  Claim C2, amended. Take a store whose cart identifiers are unique and whose
  next identifier is unused, and a request after which every line quantity
  fits a signed 64-bit integer: the stored quantities do, the payload's does
  when it is appended, and the sum does when it is merged. Then \<open>cart_add\<close>
  succeeds. If the user's active cart has a line with the payload's
  \<^verbatim>\<open>product_id\<close>, the first such line gets the payload's quantity added and
  the number of lines stays; if it has none, the payload is appended. Either
  way the subtotal returned is the sum of price times quantity over the lines
  returned, and the user's active cart as stored afterwards holds those lines
  and that subtotal. In particular, when the product is not in the cart,
  adding it with quantity 2 and again with quantity 3 leaves one line for it,
  with quantity 5, and the subtotal grows by its price times 5.
\<close>

theorem cart_add_merge_or_append:
  assumes "distinct (map fst (coll_cart s))"
      and "hex24 (next_id s) \<notin> fst ` set (coll_cart s)"
      and "\<forall>i \<in> set (active_items s uid). int64 (CartItem.quantity i)"
      and "(\<forall>x \<in> set (active_items s uid). CartItem.product_id x \<noteq> CartItem.product_id item)
             \<longrightarrow> int64 (CartItem.quantity item)"
      and "\<forall>pre ci post.
             active_items s uid = pre @ ci # post
             \<and> (\<forall>x \<in> set pre. CartItem.product_id x \<noteq> CartItem.product_id item)
             \<and> CartItem.product_id ci = CartItem.product_id item
             \<longrightarrow> int64 (CartItem.quantity ci + CartItem.quantity item)"
  shows "\<exists>s' r cid c'.
      cart_add s uid item = (s', Inr r)
    \<and> (\<forall>pre ci post.
          active_items s uid = pre @ ci # post
          \<and> (\<forall>x \<in> set pre. CartItem.product_id x \<noteq> CartItem.product_id item)
          \<and> CartItem.product_id ci = CartItem.product_id item
          \<longrightarrow> CartAddResponse.items r
                = pre @ ci\<lparr>CartItem.quantity := CartItem.quantity ci + CartItem.quantity item\<rparr> # post
              \<and> length (CartAddResponse.items r) = length (active_items s uid))
    \<and> ((\<forall>x \<in> set (active_items s uid). CartItem.product_id x \<noteq> CartItem.product_id item)
          \<longrightarrow> CartAddResponse.items r = active_items s uid @ [item])
    \<and> CartAddResponse.subtotal r
        = sum_list (map (\<lambda>i. CartItem.price i * real_of_int (CartItem.quantity i))
            (CartAddResponse.items r))
    \<and> active_cart s' uid = Some (cid, c') \<and> CartAddResponse.cart_id r = str_oid cid
    \<and> Cart.items c' = CartAddResponse.items r
    \<and> Cart.subtotal c' = CartAddResponse.subtotal r
    \<and> (\<forall>item2.
          (\<forall>x \<in> set (active_items s uid). CartItem.product_id x \<noteq> CartItem.product_id item)
          \<and> CartItem.product_id item2 = CartItem.product_id item
          \<and> CartItem.quantity item = 2 \<and> CartItem.quantity item2 = 3
          \<longrightarrow> (\<exists>s2 r2 c2.
                 cart_add s' uid item2 = (s2, Inr r2)
               \<and> CartAddResponse.items r2 = active_items s uid @ [item\<lparr>CartItem.quantity := 5\<rparr>]
               \<and> CartAddResponse.subtotal r2
                   = sum_list (map line_total (active_items s uid)) + CartItem.price item * 5
               \<and> active_cart s2 uid = Some (cid, c2)
               \<and> Cart.items c2 = CartAddResponse.items r2
               \<and> Cart.subtotal c2 = CartAddResponse.subtotal r2))"
proof -
  let ?its = "cart_add_items item (active_items s uid)"
  let ?r = "\<lparr>CartAddResponse.cart_id = str_oid cid,
             CartAddResponse.subtotal = sum_list (map line_total ?its),
             CartAddResponse.items = ?its\<rparr>"
  have enc: "bson_encodable ?its"
    using assms(3,4,5) by (rule encodable_after_add)
  from cart_add_step [OF assms(1,2) enc]
  obtain s' cid c' where
    step: "cart_add s uid item =
             (s', Inr \<lparr>CartAddResponse.cart_id = str_oid cid,
                       CartAddResponse.subtotal = sum_list (map line_total ?its),
                       CartAddResponse.items = ?its\<rparr>)"
    and act: "active_cart s' uid = Some (cid, c')"
    and its: "Cart.items c' = ?its"
    and sub: "Cart.subtotal c' = sum_list (map line_total ?its)"
    and dis: "distinct (map fst (coll_cart s'))"
    by blast
  have merge: "\<forall>pre ci post.
          active_items s uid = pre @ ci # post
          \<and> (\<forall>x \<in> set pre. CartItem.product_id x \<noteq> CartItem.product_id item)
          \<and> CartItem.product_id ci = CartItem.product_id item
          \<longrightarrow> ?its = pre @ ci\<lparr>CartItem.quantity := CartItem.quantity ci + CartItem.quantity item\<rparr> # post
              \<and> length ?its = length (active_items s uid)"
    by (auto simp: cart_add_items_present)
  have app: "(\<forall>x \<in> set (active_items s uid). CartItem.product_id x \<noteq> CartItem.product_id item)
          \<longrightarrow> ?its = active_items s uid @ [item]"
    by (simp add: cart_add_items_absent)
  have subt: "sum_list (map line_total ?its)
        = sum_list (map (\<lambda>i. CartItem.price i * real_of_int (CartItem.quantity i)) ?its)"
    by (simp add: line_total_def [abs_def])
  have twice: "\<exists>s2 r2 c2.
                 cart_add s' uid item2 = (s2, Inr r2)
               \<and> CartAddResponse.items r2 = active_items s uid @ [item\<lparr>CartItem.quantity := 5\<rparr>]
               \<and> CartAddResponse.subtotal r2
                   = sum_list (map line_total (active_items s uid)) + CartItem.price item * 5
               \<and> active_cart s2 uid = Some (cid, c2)
               \<and> Cart.items c2 = CartAddResponse.items r2
               \<and> Cart.subtotal c2 = CartAddResponse.subtotal r2"
    if h: "\<forall>x \<in> set (active_items s uid). CartItem.product_id x \<noteq> CartItem.product_id item"
      "CartItem.product_id item2 = CartItem.product_id item"
      "CartItem.quantity item = 2" "CartItem.quantity item2 = 3"
    for item2
  proof -
    from h(1) app its have i1: "Cart.items c' = active_items s uid @ [item]" by simp
    have "cart_add_items item2 (active_items s uid @ item # [])
            = active_items s uid
              @ item\<lparr>CartItem.quantity := CartItem.quantity item + CartItem.quantity item2\<rparr> # []"
      using h(1,2) by (intro cart_add_items_present) simp_all
    with h(3,4) i1 have i2: "cart_add_items item2 (Cart.items c')
            = active_items s uid @ [item\<lparr>CartItem.quantity := 5\<rparr>]" by simp
    have e2: "bson_encodable (cart_add_items item2 (Cart.items c'))"
      unfolding i2 using assms(3) by (simp add: bson_encodable_def list_all_iff int64_def)
    from cart_add_step_existing [OF dis act e2]
    obtain s2 c2 where
      "cart_add s' uid item2 =
         (s2, Inr \<lparr>CartAddResponse.cart_id = str_oid cid,
                   CartAddResponse.subtotal = sum_list (map line_total (cart_add_items item2 (Cart.items c'))),
                   CartAddResponse.items = cart_add_items item2 (Cart.items c')\<rparr>)"
      "active_cart s2 uid = Some (cid, c2)"
      "Cart.items c2 = cart_add_items item2 (Cart.items c')"
      "Cart.subtotal c2 = sum_list (map line_total (cart_add_items item2 (Cart.items c')))"
      by blast
    then show ?thesis
      unfolding i2 line_total_sum_snoc by auto
  qed
  show ?thesis
    apply (rule exI [of _ s'])
    apply (rule exI [of _ "\<lparr>CartAddResponse.cart_id = str_oid cid,
                       CartAddResponse.subtotal = sum_list (map line_total ?its),
                       CartAddResponse.items = ?its\<rparr>"])
    apply (rule exI [of _ cid])
    apply (rule exI [of _ c'])
    using step act its sub merge app subt twice
    apply (simp only: CartAddResponse.simps)
    apply blast
    done
qed

theorem cart_add_merge_or_append_witness:
  "(\<exists>s' r. cart_add shop ann_id (pen_line 3) = (s', Inr r)
       \<and> CartAddResponse.items r = [pen_line 5, milk_line 1]
       \<and> CartAddResponse.subtotal r = 19 / 2)
   \<and> (\<exists>s' r s2 r2.
         cart_add shop ''000000000000000000000009'' (pen_line 2) = (s', Inr r)
       \<and> CartAddResponse.items r = [pen_line 2]
       \<and> cart_add s' ''000000000000000000000009'' (pen_line 3) = (s2, Inr r2)
       \<and> CartAddResponse.items r2 = [pen_line 5]
       \<and> CartAddResponse.subtotal r2 = 15 / 2)"
proof -
  have s1: "\<forall>i \<in> set (active_items shop ann_id). int64 (CartItem.quantity i)"
    by (simp add: shop_active_ann pen_line_def milk_line_def int64_def)
  have s2: "(\<forall>x \<in> set (active_items shop ann_id).
               CartItem.product_id x \<noteq> CartItem.product_id (pen_line 3))
             \<longrightarrow> int64 (CartItem.quantity (pen_line 3))"
    by (simp add: pen_line_def int64_def)
  have s3: "\<forall>pre ci post.
             active_items shop ann_id = pre @ ci # post
             \<and> (\<forall>x \<in> set pre. CartItem.product_id x \<noteq> CartItem.product_id (pen_line 3))
             \<and> CartItem.product_id ci = CartItem.product_id (pen_line 3)
             \<longrightarrow> int64 (CartItem.quantity ci + CartItem.quantity (pen_line 3))"
  proof (intro allI impI)
    fix pre ci post
    assume a: "active_items shop ann_id = pre @ ci # post
             \<and> (\<forall>x \<in> set pre. CartItem.product_id x \<noteq> CartItem.product_id (pen_line 3))
             \<and> CartItem.product_id ci = CartItem.product_id (pen_line 3)"
    then have "ci \<in> set (active_items shop ann_id)" by simp
    then have "ci = pen_line 2 \<or> ci = milk_line 1" by (simp add: shop_active_ann)
    then show "int64 (CartItem.quantity ci + CartItem.quantity (pen_line 3))"
      by (auto simp: pen_line_def milk_line_def int64_def)
  qed
  from cart_add_merge_or_append [OF shop_cart_ids s1 s2 s3]
  obtain s' r where
    a1: "cart_add shop ann_id (pen_line 3) = (s', Inr r)"
    and a2: "\<forall>pre ci post.
          active_items shop ann_id = pre @ ci # post
          \<and> (\<forall>x \<in> set pre. CartItem.product_id x \<noteq> CartItem.product_id (pen_line 3))
          \<and> CartItem.product_id ci = CartItem.product_id (pen_line 3)
          \<longrightarrow> CartAddResponse.items r
                = pre @ ci\<lparr>CartItem.quantity := CartItem.quantity ci + CartItem.quantity (pen_line 3)\<rparr> # post
              \<and> length (CartAddResponse.items r) = length (active_items shop ann_id)"
    and a3: "CartAddResponse.subtotal r
        = sum_list (map (\<lambda>i. CartItem.price i * real_of_int (CartItem.quantity i))
            (CartAddResponse.items r))"
    by blast
  have "active_items shop ann_id = [] @ pen_line 2 # [milk_line 1]
        \<and> (\<forall>x \<in> set []. CartItem.product_id x \<noteq> CartItem.product_id (pen_line 3))
        \<and> CartItem.product_id (pen_line 2) = CartItem.product_id (pen_line 3)"
    by (simp add: shop_active_ann pen_line_def)
  with a2 have "CartAddResponse.items r
      = [] @ (pen_line 2)\<lparr>CartItem.quantity := CartItem.quantity (pen_line 2) + CartItem.quantity (pen_line 3)\<rparr>
           # [milk_line 1]"
    by blast
  then have a4: "CartAddResponse.items r = [pen_line 5, milk_line 1]"
    by (simp add: pen_line_def)
  with a3 have a5: "CartAddResponse.subtotal r = 19 / 2"
    by (simp add: pen_line_def milk_line_def)
  let ?bob = "''000000000000000000000009''"
  have t1: "\<forall>i \<in> set (active_items shop ?bob). int64 (CartItem.quantity i)"
    by (simp add: shop_active_bob)
  have t2: "(\<forall>x \<in> set (active_items shop ?bob).
               CartItem.product_id x \<noteq> CartItem.product_id (pen_line 2))
             \<longrightarrow> int64 (CartItem.quantity (pen_line 2))"
    by (simp add: pen_line_def int64_def)
  have t3: "\<forall>pre ci post.
             active_items shop ?bob = pre @ ci # post
             \<and> (\<forall>x \<in> set pre. CartItem.product_id x \<noteq> CartItem.product_id (pen_line 2))
             \<and> CartItem.product_id ci = CartItem.product_id (pen_line 2)
             \<longrightarrow> int64 (CartItem.quantity ci + CartItem.quantity (pen_line 2))"
    by (simp add: shop_active_bob)
  from cart_add_merge_or_append [OF shop_cart_ids t1 t2 t3]
  obtain t' q bcid where
    b1: "cart_add shop ?bob (pen_line 2) = (t', Inr q)"
    and b2: "(\<forall>x \<in> set (active_items shop ?bob).
               CartItem.product_id x \<noteq> CartItem.product_id (pen_line 2))
          \<longrightarrow> CartAddResponse.items q = active_items shop ?bob @ [pen_line 2]"
    and b3: "\<forall>item2.
          (\<forall>x \<in> set (active_items shop ?bob).
               CartItem.product_id x \<noteq> CartItem.product_id (pen_line 2))
          \<and> CartItem.product_id item2 = CartItem.product_id (pen_line 2)
          \<and> CartItem.quantity (pen_line 2) = 2 \<and> CartItem.quantity item2 = 3
          \<longrightarrow> (\<exists>s2 r2 c2.
                 cart_add t' ?bob item2 = (s2, Inr r2)
               \<and> CartAddResponse.items r2
                   = active_items shop ?bob @ [(pen_line 2)\<lparr>CartItem.quantity := 5\<rparr>]
               \<and> CartAddResponse.subtotal r2
                   = sum_list (map line_total (active_items shop ?bob))
                     + CartItem.price (pen_line 2) * 5
               \<and> active_cart s2 ?bob = Some (bcid, c2)
               \<and> Cart.items c2 = CartAddResponse.items r2
               \<and> Cart.subtotal c2 = CartAddResponse.subtotal r2)"
    by blast
  from b2 have b4: "CartAddResponse.items q = [pen_line 2]"
    by (simp add: shop_active_bob)
  have "(\<forall>x \<in> set (active_items shop ?bob).
               CartItem.product_id x \<noteq> CartItem.product_id (pen_line 2))
          \<and> CartItem.product_id (pen_line 3) = CartItem.product_id (pen_line 2)
          \<and> CartItem.quantity (pen_line 2) = 2 \<and> CartItem.quantity (pen_line 3) = 3"
    by (simp add: shop_active_bob pen_line_def)
  with b3 obtain s2 r2 where
    b5: "cart_add t' ?bob (pen_line 3) = (s2, Inr r2)"
    and b6: "CartAddResponse.items r2
               = active_items shop ?bob @ [(pen_line 2)\<lparr>CartItem.quantity := 5\<rparr>]"
    and b7: "CartAddResponse.subtotal r2
               = sum_list (map line_total (active_items shop ?bob))
                 + CartItem.price (pen_line 2) * 5"
    by blast
  from b6 have b8: "CartAddResponse.items r2 = [pen_line 5]"
    by (simp add: shop_active_bob pen_line_def)
  from b7 have b9: "CartAddResponse.subtotal r2 = 15 / 2"
    by (simp add: shop_active_bob pen_line_def)
  from a1 a4 a5 b1 b4 b5 b8 b9 show ?thesis by blast
qed





subsection \<open>Checkout of a cart with items\<close>

lemma distinct_map_same_fst:
  "distinct (map fst docs) \<Longrightarrow> (\<And>d. fst (g d) = fst d) \<Longrightarrow> distinct (map fst (map g docs))"
  by (simp add: comp_def)




lemma shop_active_cart:
  "active_cart shop ann_id
     = Some (''000000000000000000000003'',
             \<lparr>Cart.user_id = ann_id, Cart.items = [pen_line 2, milk_line 1],
              Cart.status = ''active'', Cart.subtotal = 5\<rparr>)"
  by (simp add: active_cart_def find_one_def shop_def)

lemma shop_bad_eq:
  "shop_bad = shop\<lparr>coll_cart :=
      [(''000000000000000000000003'',
        \<lparr>Cart.user_id = ann_id, Cart.items = [pen_line 2, milk_line 1, barcode_line],
         Cart.status = ''active'', Cart.subtotal = 13 / 2\<rparr>)]\<rparr>"
proof -
  let ?c = "\<lparr>Cart.user_id = ann_id, Cart.items = [pen_line 2, milk_line 1],
             Cart.status = ''active'', Cart.subtotal = 5\<rparr>"
  have e: "bson_encodable (cart_add_items barcode_line (Cart.items ?c))"
    by (simp add: cart_add_items_def bson_encodable_def int64_def pen_line_def milk_line_def
          barcode_line_def pen_id_def milk_id_def)
  show ?thesis
    unfolding shop_bad_def cart_add_existing [OF shop_cart_ids(1) shop_active_cart e]
    by (simp add: shop_def cart_add_items_def pen_line_def milk_line_def barcode_line_def
          pen_id_def milk_id_def line_total_def)
qed

lemma ObjectId_pen: "ObjectId pen_id = Some pen_id"
  by (simp add: ObjectId_hex_digits is_hex_def lower_hex_def pen_id_def)

lemma ObjectId_milk: "ObjectId milk_id = Some milk_id"
  by (simp add: ObjectId_hex_digits is_hex_def lower_hex_def milk_id_def)

lemma ObjectId_barcode: "ObjectId ''PEN123'' = None"
  by (simp add: ObjectId_def)

lemma pen_neq_milk: "pen_id \<noteq> milk_id" "milk_id \<noteq> pen_id"
  by (simp_all add: pen_id_def milk_id_def)

lemma checkout_shop_bad:
  "checkout shop_bad ann_id =
     (shop_bad\<lparr>coll_order := coll_order shop_bad @
          [(hex24 7, shop_order ''000000000000000000000003''
                       [pen_line 2, milk_line 1, barcode_line] (13 / 2) ''pending'')],
        next_id := 8,
        coll_product := map (\<lambda>d. (fst d, (snd d)\<lparr>Product.stock := Product.stock (snd d)
                           - (if fst d = pen_id then 2 else if fst d = milk_id then 1 else 0)\<rparr>))
                          (coll_product shop_bad)\<rparr>,
      Inl (HTTPException 400 ''Invalid id''))"
  unfolding shop_bad_eq
  by (simp add: checkout_def active_cart_def find_one_def shop_def Order_init_def
        create_document_order_def Let_def py_sum_def line_total_def oid_def
        ObjectId_pen ObjectId_milk ObjectId_barcode str_oid_def pen_neq_milk
        pen_line_def milk_line_def barcode_line_def shop_order_def)




text \<open>
  Claim C4 on the code: \<open>checkout\<close> on the cart with the malformed
  \<^verbatim>\<open>product_id\<close> answers with the client error "Invalid id", and by then it
  has inserted an order and lowered the stock of the products of the lines
  before the malformed one.
\<close>

theorem checkout_invalid_id_after_writes:
  "snd (checkout shop_bad ann_id) = Inl (HTTPException 400 ''Invalid id'')
   \<and> length (coll_order shop_bad) = 3
   \<and> length (coll_order (fst (checkout shop_bad ann_id))) = 4
   \<and> map (\<lambda>d. Product.stock (snd d)) (coll_product shop_bad) = [100, 50]
   \<and> map (\<lambda>d. Product.stock (snd d)) (coll_product (fst (checkout shop_bad ann_id))) = [98, 49]
   \<and> fst (checkout shop_bad ann_id) \<noteq> shop_bad"
proof -
  have a: "snd (checkout shop_bad ann_id) = Inl (HTTPException 400 ''Invalid id'')"
    unfolding checkout_shop_bad by simp
  have b: "length (coll_order shop_bad) = 3"
    by (simp add: shop_bad_eq shop_def)
  have c: "length (coll_order (fst (checkout shop_bad ann_id))) = 4"
    unfolding checkout_shop_bad by (simp add: b)
  have d: "map (\<lambda>d. Product.stock (snd d)) (coll_product shop_bad) = [100, 50]"
    by (simp add: shop_bad_eq shop_def)
  have e: "map (\<lambda>d. Product.stock (snd d)) (coll_product (fst (checkout shop_bad ann_id))) = [98, 49]"
    unfolding checkout_shop_bad using pen_neq_milk by (simp add: shop_bad_eq shop_def)
  have f: "fst (checkout shop_bad ann_id) \<noteq> shop_bad"
  proof
    assume "fst (checkout shop_bad ann_id) = shop_bad"
    then have "length (coll_order (fst (checkout shop_bad ann_id))) = length (coll_order shop_bad)"
      by (rule arg_cong)
    with b c show False by simp
  qed
  show ?thesis
    apply (intro conjI)
         apply (rule a)
        apply (rule b)
       apply (rule c)
      apply (rule d)
     apply (rule e)
    apply (rule f)
    done
qed

subsection \<open>Validation of cart items\<close>

text \<open>
  Claim C5 on the code: the \<^verbatim>\<open>CartItem\<close> constructor accepts a negative price
  (\<^verbatim>\<open>price: float\<close> carries no constraint), where the \<^verbatim>\<open>Product\<close>
  constructor rejects one (\<^verbatim>\<open>ge=0\<close>); the route then stores the line, and the
  cart's subtotal is negative.
\<close>

theorem cart_item_negative_price_accepted:
  "CartItem_init negative_body
     = Inr \<lparr>CartItem.product_id = pen_id, CartItem.title = ''Pen'', CartItem.price = - 1,
            CartItem.quantity = 2, CartItem.barcode = None\<rparr>
   \<and> Product_init \<lparr>Product_fields.title = ''Pen'', Product_fields.description = None,
                    Product_fields.price = - 1, Product_fields.barcode = None,
                    Product_fields.stock = None, Product_fields.category = None,
                    Product_fields.in_stock = None\<rparr> = Inl ValidationError
   \<and> map (\<lambda>d. (map CartItem.price (Cart.items (snd d)), Cart.subtotal (snd d)))
        (coll_cart (fst (post_cart_add empty_db ann_id negative_body))) = [([- 1], - 2)]"
proof -
  have a: "CartItem_init negative_body
     = Inr \<lparr>CartItem.product_id = pen_id, CartItem.title = ''Pen'', CartItem.price = - 1,
            CartItem.quantity = 2, CartItem.barcode = None\<rparr>"
    by (simp add: CartItem_init_def negative_body_def)
  have b: "Product_init \<lparr>Product_fields.title = ''Pen'', Product_fields.description = None,
                    Product_fields.price = - 1, Product_fields.barcode = None,
                    Product_fields.stock = None, Product_fields.category = None,
                    Product_fields.in_stock = None\<rparr> = Inl ValidationError"
    by (simp add: Product_init_def)
  have q: "int64 (CartItem.quantity \<lparr>CartItem.product_id = pen_id, CartItem.title = ''Pen'',
            CartItem.price = - 1, CartItem.quantity = 2, CartItem.barcode = None\<rparr>)"
    by (simp add: int64_def)
  have c: "map (\<lambda>d. (map CartItem.price (Cart.items (snd d)), Cart.subtotal (snd d)))
        (coll_cart (fst (post_cart_add empty_db ann_id negative_body))) = [([- 1], - 2)]"
    unfolding post_cart_add_def a sum.case cart_add_new [OF fresh_empty_db active_cart_empty_db q]
    by (simp add: line_total_def empty_db_def)
  show ?thesis
    apply (intro conjI)
      apply (rule a)
     apply (rule b)
    apply (rule c)
    done
qed

subsection \<open>Identifier parameters\<close>

lemma oid_rejected:
  "length x \<noteq> 24 \<or> fromhex x = None \<Longrightarrow> oid x = Inl (HTTPException 400 ''Invalid id'')"
  by (auto simp: oid_def ObjectId_def)

lemma cart_add_found_no_http: "snd (cart_add_found s cid c item) \<noteq> Inl (HTTPException n d)"
  by (cases "sum_lines 0 (cart_add_items item (Cart.items c))")
     (auto simp: cart_add_found_def Let_def dest: sum_lines_error)

lemma cart_add_no_http: "snd (cart_add s uid item) \<noteq> Inl (HTTPException n d)"
proof (cases "active_cart s uid")
  case None
  then show ?thesis
    by (simp add: cart_add_def create_document_cart_def Let_def str_oid_def ObjectId_hex24
          cart_add_found_no_http)
next
  case (Some a)
  then show ?thesis
    by (cases a) (simp add: cart_add_def cart_add_found_no_http)
qed

lemma no_active_cart:
  "\<forall>d \<in> set (coll_cart s). \<not> (Cart.user_id (snd d) = x \<and> Cart.status (snd d) = ''active'')
   \<Longrightarrow> active_cart s x = None"
  by (simp add: active_cart_def find_one_None)

lemma get_cart_found:
  assumes "\<exists>d \<in> set (coll_cart s). Cart.user_id (snd d) = x \<and> Cart.status (snd d) = ''active''"
  shows "\<exists>d \<in> set (coll_cart s).
           Cart.user_id (snd d) = x \<and> Cart.status (snd d) = ''active''
           \<and> get_cart s x = Inr \<lparr>GetCartResponse.items = Cart.items (snd d),
                                  GetCartResponse.subtotal = Cart.subtotal (snd d)\<rparr>"
proof -
  from assms have "active_cart s x \<noteq> None"
    by (auto simp: active_cart_def find_one_None)
  then obtain d where d: "active_cart s x = Some d" by blast
  then have m: "d \<in> set (coll_cart s)"
      "Cart.user_id (snd d) = x \<and> Cart.status (snd d) = ''active''"
    unfolding active_cart_def by (auto dest: find_one_SomeD)
  from d have "get_cart s x = Inr \<lparr>GetCartResponse.items = Cart.items (snd d),
                                  GetCartResponse.subtotal = Cart.subtotal (snd d)\<rparr>"
    by (cases d) (simp add: get_cart_def)
  with m show ?thesis by blast
qed

text \<open>
  Claim C6, as stated, fails, in two ways. An order identifier of 24
  characters that are not all hexadecimal digits, eight pairs of digits each
  followed by a space, is parsed (the white space is skipped), looked up in
  the store and answered with "Order not found". And the \<^verbatim>\<open>user_id\<close> path
  parameter of the cart routes is never parsed: with a value that is no
  object identifier, \<open>cart_add\<close> succeeds and \<open>get_cart\<close> answers from the
  store by that value.
\<close>

theorem identifier_not_rejected_counterexample:
  "length ''00 00 00 00 00 00 00 00 '' = 24
   \<and> \<not> list_all is_hex ''00 00 00 00 00 00 00 00 ''
   \<and> ObjectId ''00 00 00 00 00 00 00 00 '' = Some ''0000000000000000''
   \<and> pay_gpay shop ''00 00 00 00 00 00 00 00 ''
       = (shop, Inl (HTTPException 404 ''Order not found''))
   \<and> send_receipt shop \<lparr>ReceiptRequest.order_id = ''00 00 00 00 00 00 00 00 '',
                         ReceiptRequest.email = None, ReceiptRequest.phone = None\<rparr>
       = Inl (HTTPException 404 ''Order not found'')
   \<and> ObjectId ''guest'' = None
   \<and> snd (cart_add empty_db ''guest'' (pen_line 1))
       = Inr \<lparr>CartAddResponse.cart_id = hex24 0, CartAddResponse.subtotal = 3 / 2,
              CartAddResponse.items = [pen_line 1]\<rparr>
   \<and> get_cart empty_db ''guest''
       = Inr \<lparr>GetCartResponse.items = [], GetCartResponse.subtotal = 0\<rparr>
   \<and> get_cart (fst (cart_add empty_db ''guest'' (pen_line 1))) ''guest''
       = Inr \<lparr>GetCartResponse.items = [pen_line 1], GetCartResponse.subtotal = 3 / 2\<rparr>"
proof -
  have q: "int64 (CartItem.quantity (pen_line 1))" by (simp add: int64_def pen_line_def)
  have l: "length ''00 00 00 00 00 00 00 00 '' = 24" by simp
  have n: "\<not> list_all is_hex ''00 00 00 00 00 00 00 00 ''" by (simp add: is_hex_def)
  have o: "ObjectId ''00 00 00 00 00 00 00 00 '' = Some ''0000000000000000''"
    by (simp add: ObjectId_def is_hex_def is_space_def lower_hex_def)
  have p: "pay_gpay shop ''00 00 00 00 00 00 00 00 ''
       = (shop, Inl (HTTPException 404 ''Order not found''))"
    by (simp add: pay_gpay_def oid_def o find_one_def shop_def)
  have r: "send_receipt shop \<lparr>ReceiptRequest.order_id = ''00 00 00 00 00 00 00 00 '',
                         ReceiptRequest.email = None, ReceiptRequest.phone = None\<rparr>
       = Inl (HTTPException 404 ''Order not found'')"
    by (simp add: send_receipt_def oid_def o find_one_def shop_def)
  have a: "ObjectId ''guest'' = None" by (simp add: ObjectId_def)
  have b: "snd (cart_add empty_db ''guest'' (pen_line 1))
       = Inr \<lparr>CartAddResponse.cart_id = hex24 0, CartAddResponse.subtotal = 3 / 2,
              CartAddResponse.items = [pen_line 1]\<rparr>"
    unfolding cart_add_new [OF fresh_empty_db active_cart_empty_db q]
    by (simp add: empty_db_def line_total_def pen_line_def)
  have c: "get_cart empty_db ''guest''
       = Inr \<lparr>GetCartResponse.items = [], GetCartResponse.subtotal = 0\<rparr>"
    by (simp add: get_cart_def active_cart_empty_db)
  have d: "get_cart (fst (cart_add empty_db ''guest'' (pen_line 1))) ''guest''
       = Inr \<lparr>GetCartResponse.items = [pen_line 1], GetCartResponse.subtotal = 3 / 2\<rparr>"
    unfolding get_cart_def active_cart_after_new [OF fresh_empty_db active_cart_empty_db q]
    by (simp add: line_total_def pen_line_def)
  show ?thesis
    apply (intro conjI)
            apply (rule l)
           apply (rule n)
          apply (rule o)
         apply (rule p)
        apply (rule r)
       apply (rule a)
      apply (rule b)
     apply (rule c)
    apply (rule d)
    done
qed

text \<open>
  Claim C6, amended. The handlers that take an order identifier, \<open>pay_gpay\<close>
  and \<open>send_receipt\<close>, answer every string that \<^verbatim>\<open>ObjectId\<close> refuses, one that
  is not 24 characters long or is not pairs of hexadecimal digits with
  optional white space before a pair or at the end, with the client error
  "Invalid id"; the answer is the same whatever the store holds, and the
  store is left as it was. The \<^verbatim>\<open>user_id\<close> of the cart routes is an opaque
  string, looked up as given, also when it is such a string: \<open>cart_add\<close>
  never answers "Invalid id"; when the store holds no active cart under the
  string, \<open>get_cart\<close> answers the empty cart, \<open>checkout\<close> answers "Cart is
  empty" and leaves the store as it was, and \<open>cart_add\<close> of a line with a
  64-bit quantity creates a cart under the string; when the store holds an
  active cart under the string, \<open>get_cart\<close> answers with the items and the
  subtotal of such a cart.
\<close>

theorem malformed_order_id_rejected:
  assumes "length x \<noteq> 24 \<or> fromhex x = None"
  shows "pay_gpay s x = (s, Inl (HTTPException 400 ''Invalid id''))
       \<and> snd (pay_gpay t x) = snd (pay_gpay s x)
       \<and> send_receipt s \<lparr>ReceiptRequest.order_id = x, ReceiptRequest.email = e,
                          ReceiptRequest.phone = p\<rparr> = Inl (HTTPException 400 ''Invalid id'')
       \<and> send_receipt t \<lparr>ReceiptRequest.order_id = x, ReceiptRequest.email = e,
                          ReceiptRequest.phone = p\<rparr>
           = send_receipt s \<lparr>ReceiptRequest.order_id = x, ReceiptRequest.email = e,
                              ReceiptRequest.phone = p\<rparr>
       \<and> snd (cart_add s x item) \<noteq> Inl (HTTPException 400 ''Invalid id'')
       \<and> ((\<forall>d \<in> set (coll_cart s).
              \<not> (Cart.user_id (snd d) = x \<and> Cart.status (snd d) = ''active''))
            \<longrightarrow> get_cart s x = Inr \<lparr>GetCartResponse.items = [], GetCartResponse.subtotal = 0\<rparr>
              \<and> checkout s x = (s, Inl (HTTPException 400 ''Cart is empty'')))
       \<and> ((\<forall>d \<in> set (coll_cart s).
              \<not> (Cart.user_id (snd d) = x \<and> Cart.status (snd d) = ''active''))
            \<and> hex24 (next_id s) \<notin> fst ` set (coll_cart s)
            \<and> int64 (CartItem.quantity item)
            \<longrightarrow> cart_add s x item =
                  (s\<lparr>coll_cart := coll_cart s @ [(hex24 (next_id s),
                         \<lparr>Cart.user_id = x, Cart.items = [item], Cart.status = ''active'',
                          Cart.subtotal = line_total item\<rparr>)],
                      next_id := Suc (next_id s)\<rparr>,
                   Inr \<lparr>CartAddResponse.cart_id = hex24 (next_id s),
                        CartAddResponse.subtotal = line_total item,
                        CartAddResponse.items = [item]\<rparr>))
       \<and> ((\<exists>d \<in> set (coll_cart s).
              Cart.user_id (snd d) = x \<and> Cart.status (snd d) = ''active'')
            \<longrightarrow> (\<exists>d \<in> set (coll_cart s).
                   Cart.user_id (snd d) = x \<and> Cart.status (snd d) = ''active''
                   \<and> get_cart s x = Inr \<lparr>GetCartResponse.items = Cart.items (snd d),
                                          GetCartResponse.subtotal = Cart.subtotal (snd d)\<rparr>))"
proof -
  note m = oid_rejected [OF assms]
  have p1: "pay_gpay s x = (s, Inl (HTTPException 400 ''Invalid id''))"
    by (simp add: pay_gpay_def m)
  have p2: "snd (pay_gpay t x) = snd (pay_gpay s x)"
    by (simp add: pay_gpay_def m)
  have r1: "send_receipt s \<lparr>ReceiptRequest.order_id = x, ReceiptRequest.email = e,
                          ReceiptRequest.phone = p\<rparr> = Inl (HTTPException 400 ''Invalid id'')"
    by (simp add: send_receipt_def m)
  have r2: "send_receipt t \<lparr>ReceiptRequest.order_id = x, ReceiptRequest.email = e,
                          ReceiptRequest.phone = p\<rparr>
           = send_receipt s \<lparr>ReceiptRequest.order_id = x, ReceiptRequest.email = e,
                              ReceiptRequest.phone = p\<rparr>"
    by (simp add: send_receipt_def m)
  have c: "snd (cart_add s x item) \<noteq> Inl (HTTPException 400 ''Invalid id'')"
    by (rule cart_add_no_http)
  have n: "(\<forall>d \<in> set (coll_cart s).
              \<not> (Cart.user_id (snd d) = x \<and> Cart.status (snd d) = ''active''))
            \<longrightarrow> get_cart s x = Inr \<lparr>GetCartResponse.items = [], GetCartResponse.subtotal = 0\<rparr>
              \<and> checkout s x = (s, Inl (HTTPException 400 ''Cart is empty''))"
  proof
    assume "\<forall>d \<in> set (coll_cart s).
              \<not> (Cart.user_id (snd d) = x \<and> Cart.status (snd d) = ''active'')"
    then have ac: "active_cart s x = None" by (rule no_active_cart)
    show "get_cart s x = Inr \<lparr>GetCartResponse.items = [], GetCartResponse.subtotal = 0\<rparr>
              \<and> checkout s x = (s, Inl (HTTPException 400 ''Cart is empty''))"
      by (simp add: get_cart_def checkout_def ac)
  qed
  have a: "(\<forall>d \<in> set (coll_cart s).
              \<not> (Cart.user_id (snd d) = x \<and> Cart.status (snd d) = ''active''))
            \<and> hex24 (next_id s) \<notin> fst ` set (coll_cart s)
            \<and> int64 (CartItem.quantity item)
            \<longrightarrow> cart_add s x item =
                  (s\<lparr>coll_cart := coll_cart s @ [(hex24 (next_id s),
                         \<lparr>Cart.user_id = x, Cart.items = [item], Cart.status = ''active'',
                          Cart.subtotal = line_total item\<rparr>)],
                      next_id := Suc (next_id s)\<rparr>,
                   Inr \<lparr>CartAddResponse.cart_id = hex24 (next_id s),
                        CartAddResponse.subtotal = line_total item,
                        CartAddResponse.items = [item]\<rparr>)"
  proof
    assume h: "(\<forall>d \<in> set (coll_cart s).
              \<not> (Cart.user_id (snd d) = x \<and> Cart.status (snd d) = ''active''))
            \<and> hex24 (next_id s) \<notin> fst ` set (coll_cart s)
            \<and> int64 (CartItem.quantity item)"
    from h have ac: "active_cart s x = None" by (intro no_active_cart) (rule conjunct1)
    from h have f: "hex24 (next_id s) \<notin> fst ` set (coll_cart s)" by (elim conjE)
    from h have q: "int64 (CartItem.quantity item)" by (elim conjE)
    show "cart_add s x item =
                  (s\<lparr>coll_cart := coll_cart s @ [(hex24 (next_id s),
                         \<lparr>Cart.user_id = x, Cart.items = [item], Cart.status = ''active'',
                          Cart.subtotal = line_total item\<rparr>)],
                      next_id := Suc (next_id s)\<rparr>,
                   Inr \<lparr>CartAddResponse.cart_id = hex24 (next_id s),
                        CartAddResponse.subtotal = line_total item,
                        CartAddResponse.items = [item]\<rparr>)"
      by (rule cart_add_new [OF f ac q])
  qed
  have g: "(\<exists>d \<in> set (coll_cart s).
              Cart.user_id (snd d) = x \<and> Cart.status (snd d) = ''active'')
            \<longrightarrow> (\<exists>d \<in> set (coll_cart s).
                   Cart.user_id (snd d) = x \<and> Cart.status (snd d) = ''active''
                   \<and> get_cart s x = Inr \<lparr>GetCartResponse.items = Cart.items (snd d),
                                          GetCartResponse.subtotal = Cart.subtotal (snd d)\<rparr>)"
    by (rule impI) (rule get_cart_found)
  show ?thesis
    apply (intro conjI)
           apply (rule p1)
          apply (rule p2)
         apply (rule r1)
        apply (rule r2)
       apply (rule c)
      apply (rule n)
     apply (rule a)
    apply (rule g)
    done
qed

theorem malformed_order_id_rejected_witness:
  "length ''guest'' = 5
   \<and> pay_gpay shop ''guest'' = (shop, Inl (HTTPException 400 ''Invalid id''))
   \<and> send_receipt shop \<lparr>ReceiptRequest.order_id = ''guest'', ReceiptRequest.email = None,
                         ReceiptRequest.phone = None\<rparr> = Inl (HTTPException 400 ''Invalid id'')
   \<and> get_cart shop ''guest''
       = Inr \<lparr>GetCartResponse.items = [], GetCartResponse.subtotal = 0\<rparr>
   \<and> checkout shop ''guest'' = (shop, Inl (HTTPException 400 ''Cart is empty''))
   \<and> cart_add empty_db ''guest'' (pen_line 1)
       = (empty_db\<lparr>coll_cart := [(hex24 0,
              \<lparr>Cart.user_id = ''guest'', Cart.items = [pen_line 1], Cart.status = ''active'',
               Cart.subtotal = 3 / 2\<rparr>)],
            next_id := 1\<rparr>,
          Inr \<lparr>CartAddResponse.cart_id = hex24 0, CartAddResponse.subtotal = 3 / 2,
               CartAddResponse.items = [pen_line 1]\<rparr>)
   \<and> get_cart (empty_db\<lparr>coll_cart := [(hex24 0,
              \<lparr>Cart.user_id = ''guest'', Cart.items = [pen_line 1], Cart.status = ''active'',
               Cart.subtotal = 3 / 2\<rparr>)],
            next_id := 1\<rparr>) ''guest''
       = Inr \<lparr>GetCartResponse.items = [pen_line 1], GetCartResponse.subtotal = 3 / 2\<rparr>
   \<and> length ''00000000000000000000000g'' = 24
   \<and> fromhex ''00000000000000000000000g'' = None
   \<and> pay_gpay shop ''00000000000000000000000g''
       = (shop, Inl (HTTPException 400 ''Invalid id''))"
proof -
  let ?c = "\<lparr>Cart.user_id = ''guest'', Cart.items = [pen_line 1], Cart.status = ''active'',
             Cart.subtotal = 3 / 2\<rparr>"
  let ?g = "empty_db\<lparr>coll_cart := [(hex24 0, ?c)], next_id := 1\<rparr>"
  have h: "length ''guest'' \<noteq> 24 \<or> fromhex ''guest'' = None" by simp
  have l: "length ''guest'' = 5" by simp
  have k: "length ''00000000000000000000000g'' \<noteq> 24 \<or> fromhex ''00000000000000000000000g'' = None"
    by (simp add: is_hex_def is_space_def)
  have k1: "length ''00000000000000000000000g'' = 24" by simp
  have k2: "fromhex ''00000000000000000000000g'' = None"
    by (simp add: is_hex_def is_space_def)
  have n1: "\<forall>d \<in> set (coll_cart shop).
              \<not> (Cart.user_id (snd d) = ''guest'' \<and> Cart.status (snd d) = ''active'')"
    by (simp add: shop_def ann_id_def)
  have n2: "(\<forall>d \<in> set (coll_cart empty_db).
              \<not> (Cart.user_id (snd d) = ''guest'' \<and> Cart.status (snd d) = ''active''))
            \<and> hex24 (next_id empty_db) \<notin> fst ` set (coll_cart empty_db)
            \<and> int64 (CartItem.quantity (pen_line 1))"
    by (simp add: empty_db_def int64_def pen_line_def)
  have n3: "\<exists>d \<in> set (coll_cart ?g).
              Cart.user_id (snd d) = ''guest'' \<and> Cart.status (snd d) = ''active''"
    by simp
  note a = malformed_order_id_rejected [OF h, of shop shop None None "pen_line 1"]
  note b = malformed_order_id_rejected [OF h, of empty_db shop None None "pen_line 1"]
  note c = malformed_order_id_rejected [OF h, of ?g shop None None "pen_line 1"]
  note d = malformed_order_id_rejected [OF k, of shop shop None None "pen_line 1"]
  have a1: "pay_gpay shop ''guest'' = (shop, Inl (HTTPException 400 ''Invalid id''))"
    by (rule a [THEN conjunct1])
  have a3: "send_receipt shop \<lparr>ReceiptRequest.order_id = ''guest'', ReceiptRequest.email = None,
                         ReceiptRequest.phone = None\<rparr> = Inl (HTTPException 400 ''Invalid id'')"
    by (rule a [THEN conjunct2, THEN conjunct2, THEN conjunct1])
  have a6: "get_cart shop ''guest''
       = Inr \<lparr>GetCartResponse.items = [], GetCartResponse.subtotal = 0\<rparr>
     \<and> checkout shop ''guest'' = (shop, Inl (HTTPException 400 ''Cart is empty''))"
    by (rule a [THEN conjunct2, THEN conjunct2, THEN conjunct2, THEN conjunct2, THEN conjunct2,
          THEN conjunct1, THEN mp, OF n1])
  have b7: "cart_add empty_db ''guest'' (pen_line 1) = (?g,
          Inr \<lparr>CartAddResponse.cart_id = hex24 0, CartAddResponse.subtotal = 3 / 2,
               CartAddResponse.items = [pen_line 1]\<rparr>)"
    using b [THEN conjunct2, THEN conjunct2, THEN conjunct2, THEN conjunct2, THEN conjunct2,
          THEN conjunct2, THEN conjunct1, THEN mp, OF n2]
    by (simp add: empty_db_def line_total_def pen_line_def)
  have c8: "get_cart ?g ''guest''
       = Inr \<lparr>GetCartResponse.items = [pen_line 1], GetCartResponse.subtotal = 3 / 2\<rparr>"
    using c [THEN conjunct2, THEN conjunct2, THEN conjunct2, THEN conjunct2, THEN conjunct2,
          THEN conjunct2, THEN conjunct2, THEN mp, OF n3]
    by simp
  have d1: "pay_gpay shop ''00000000000000000000000g''
       = (shop, Inl (HTTPException 400 ''Invalid id''))"
    by (rule d [THEN conjunct1])
  show ?thesis
    apply (intro conjI)
             apply (rule l)
            apply (rule a1)
           apply (rule a3)
          apply (rule a6 [THEN conjunct1])
         apply (rule a6 [THEN conjunct2])
        apply (rule b7)
       apply (rule c8)
      apply (rule k1)
     apply (rule k2)
    apply (rule d1)
    done
qed

end
